theory Spec2Isabelle
  imports Main "HOL-Library.Word" "HOL-Library.AList"
begin

unbundle bit_operations_syntax

section \<open>Errors and tasks\<close>

text \<open>
  Go's \<open>error\<close> values. The constructors are the errors the operating system and the
  external tools hand back; \<open>Errorf\<close> is \<open>fmt.Errorf\<close> without a wrapped cause and
  \<open>Wrapf\<close> is \<open>fmt.Errorf\<close> with \<open>%w\<close>: the message text and the wrapped error.
\<close>

datatype error =
    ENOENT
  | ENOTDIR
  | EEXIST
  | EISDIR
  | ENOTEMPTY
  | EINVAL
  | ExitError nat
  | ExecError string
  | Panic string
  | UnknownUserError string
  | UnknownGroupError string
  | Errorf string
  | Wrapf string error

text \<open>
  A task is Go's \<open>func() (bool, error)\<close>: a closure over the system it acts on. The system
  state is threaded explicitly; the result is the pair \<open>(changed, err)\<close> with \<open>None\<close> for
  a nil error.
\<close>

type_synonym 's task = "'s \<Rightarrow> (bool \<times> error option) \<times> 's"

text \<open>
  \<open>runTasks\<close> (config.go): the \<open>for\<close> loop over the tasks with the local \<open>changed\<close> as
  the accumulator of the recursion.
\<close>

fun runTasks_loop :: "'s task list \<Rightarrow> bool \<Rightarrow> 's \<Rightarrow> (bool \<times> error option) \<times> 's" where
  "runTasks_loop [] changed s = ((changed, None), s)"
| "runTasks_loop (task # tasks) changed s =
     (case task s of
        ((c, err), s') \<Rightarrow>
          (let changed' = (if c then c else changed) in
           case err of
             Some e \<Rightarrow> ((changed', Some e), s')
           | None \<Rightarrow> runTasks_loop tasks changed' s'))"

definition runTasks :: "'s task list \<Rightarrow> 's \<Rightarrow> (bool \<times> error option) \<times> 's" where
  "runTasks tasks s = runTasks_loop tasks False s"

text \<open>
  Observing an execution. \<open>logged i t\<close> is the task \<open>t\<close> that also appends its position
  \<open>i\<close> to a log kept beside the state, so the log of a run lists the steps that were
  executed, in the order of execution. \<open>exec_seq\<close> runs steps one after the other with no
  regard to their results, and \<open>step_result tasks s i\<close> is what step \<open>i\<close> returns when
  the steps before it have run in order from \<open>s\<close>.
\<close>

definition logged :: "nat \<Rightarrow> 's task \<Rightarrow> (nat list \<times> 's) task" where
  "logged i t = (\<lambda>(l, s). case t s of (r, s') \<Rightarrow> (r, (l @ [i], s')))"

fun instrument_from :: "nat \<Rightarrow> 's task list \<Rightarrow> (nat list \<times> 's) task list" where
  "instrument_from n [] = []"
| "instrument_from n (t # ts) = logged n t # instrument_from (Suc n) ts"

definition instrument :: "'s task list \<Rightarrow> (nat list \<times> 's) task list" where
  "instrument tasks = instrument_from 0 tasks"

fun exec_seq :: "('s \<Rightarrow> 'r \<times> 's) list \<Rightarrow> 's \<Rightarrow> 's" where
  "exec_seq [] s = s"
| "exec_seq (t # ts) s = exec_seq ts (snd (t s))"

definition step_result :: "('s \<Rightarrow> 'r \<times> 's) list \<Rightarrow> 's \<Rightarrow> nat \<Rightarrow> 'r" where
  "step_result tasks s i = fst ((tasks ! i) (exec_seq (take i tasks) s))"


section \<open>The operating system\<close>

subsection \<open>File modes\<close>

text \<open>
  Go's \<open>os.FileMode\<close> is a \<open>uint32\<close>: the nine permission bits in the low bits and Go's
  own flags in the high bits. The mode of \<open>syscall.Stat_t\<close> is the kernel's \<open>st_mode\<close>:
  the permission bits, the set-uid, set-gid and sticky bits (octal 4000, 2000, 1000)
  and the file type (mask octal 170000). \<open>syscallMode\<close> and \<open>fileModeOfStat\<close> are the two
  conversions of package \<open>os\<close> (\<open>syscallMode\<close> in file_posix.go and
  \<open>fillFileStatFromSys\<close> in stat_linux.go), restricted to regular files and directories.
\<close>

type_synonym FileMode = "32 word"

definition ModePerm :: FileMode where "ModePerm = 511"
definition ModeDir :: FileMode where "ModeDir = 2147483648"
definition ModeSetuid :: FileMode where "ModeSetuid = 8388608"
definition ModeSetgid :: FileMode where "ModeSetgid = 4194304"
definition ModeSticky :: FileMode where "ModeSticky = 1048576"

definition S_IFMT :: "32 word" where "S_IFMT = 61440"
definition S_IFDIR :: "32 word" where "S_IFDIR = 16384"
definition S_IFREG :: "32 word" where "S_IFREG = 32768"
definition S_ISUID :: "32 word" where "S_ISUID = 2048"
definition S_ISGID :: "32 word" where "S_ISGID = 1024"
definition S_ISVTX :: "32 word" where "S_ISVTX = 512"

definition defaultFileMode :: FileMode where "defaultFileMode = 420"
definition defaultDirMode :: FileMode where "defaultDirMode = 493"

definition Perm :: "FileMode \<Rightarrow> FileMode" where
  "Perm m = m AND ModePerm"

definition syscallMode :: "FileMode \<Rightarrow> 32 word" where
  "syscallMode i =
     Perm i
     OR (if i AND ModeSetuid \<noteq> 0 then S_ISUID else 0)
     OR (if i AND ModeSetgid \<noteq> 0 then S_ISGID else 0)
     OR (if i AND ModeSticky \<noteq> 0 then S_ISVTX else 0)"

definition fileModeOfStat :: "32 word \<Rightarrow> FileMode" where
  "fileModeOfStat m =
     (m AND 511)
     OR (if m AND S_IFMT = S_IFDIR then ModeDir else 0)
     OR (if m AND S_ISGID \<noteq> 0 then ModeSetgid else 0)
     OR (if m AND S_ISUID \<noteq> 0 then ModeSetuid else 0)
     OR (if m AND S_ISVTX \<noteq> 0 then ModeSticky else 0)"

subsection \<open>The state of the host\<close>

text \<open>
  What \<open>os.Stat\<close> reports of a file (\<open>syscall.Stat_t\<close>: mode, owner, group), and its
  bytes. A directory has no bytes of its own.
\<close>

record inode =
  st_mode :: "32 word"
  st_uid :: "32 word"
  st_gid :: "32 word"
  data :: string

text \<open>
  What \<open>user.Lookup\<close> followed by \<open>strconv.Atoi\<close> of the id gives for a name: no such
  name, an id that is not a number (the text of the id), or the numeric id.
\<close>

datatype lookup = NotFound | BadId string | Found int

text \<open>
  The result of running an external command: it ran and exited with a status and its
  output, or it could not be run at all (not found, cancelled).
\<close>

datatype cmd_result = Exited nat string | NotStarted error

text \<open>
  The host. The file system is an association list from paths to inodes, read through
  \<open>map_of\<close>; a path is the list of its components, so \<open>/etc/motd\<close> is
  \<open>[''etc'', ''motd'']\<close> and the root directory is \<open>[]\<close>. The process runs with
  enough privilege for every operation (the tool is run as root), so no operation fails
  for want of permission; it has a umask, and the files it creates belong to \<open>euid\<close> and
  \<open>egid\<close>. Symbolic links and the components \<open>.\<close> and \<open>..\<close> are outside the model.
  \<open>rand\<close> is the source of the random names of temporary files. The external tools
  (dpkg, apt, systemctl) are a function \<open>system\<close> from the commands run so far and the
  command run now to its result; \<open>cmdlog\<close> records every command run.
\<close>

record world =
  fs :: "(string list \<times> inode) list"
  umask :: "32 word"
  euid :: "32 word"
  egid :: "32 word"
  users :: "string \<Rightarrow> lookup"
  groups :: "string \<Rightarrow> lookup"
  rand :: "nat \<Rightarrow> string"
  rand_next :: nat
  system :: "string list list \<Rightarrow> string list \<Rightarrow> cmd_result"
  cmdlog :: "string list list"

subsection \<open>Paths\<close>

text \<open>
  The components of a path given as a string: split at the slashes, empty components
  dropped. A relative path is read from the root.
\<close>

fun split_from :: "string \<Rightarrow> string \<Rightarrow> string list" where
  "split_from cur [] = (if cur = [] then [] else [cur])"
| "split_from cur (c # cs) =
     (if c = CHR ''/'' then (if cur = [] then [] else [cur]) @ split_from [] cs
      else split_from (cur @ [c]) cs)"

definition split_path :: "string \<Rightarrow> string list" where
  "split_path name = split_from [] name"

definition IsDir :: "inode \<Rightarrow> bool" where
  "IsDir n = (st_mode n AND S_IFMT = S_IFDIR)"

definition node :: "world \<Rightarrow> string list \<Rightarrow> inode option" where
  "node w p = map_of (fs w) p"

text \<open>
  The error of resolving a path that has no inode: \<open>ENOTDIR\<close> when a proper prefix of it
  is something other than a directory, \<open>ENOENT\<close> otherwise.
\<close>

definition lookup_err :: "world \<Rightarrow> string list \<Rightarrow> error" where
  "lookup_err w p =
     (if list_ex (\<lambda>k. case node w (take k p) of Some n \<Rightarrow> \<not> IsDir n | None \<Rightarrow> False) [0..<length p]
      then ENOTDIR else ENOENT)"

definition parent_ok :: "world \<Rightarrow> string list \<Rightarrow> bool" where
  "parent_ok w p = (p \<noteq> [] \<and> (case node w (butlast p) of Some n \<Rightarrow> IsDir n | None \<Rightarrow> False))"

definition has_children :: "world \<Rightarrow> string list \<Rightarrow> bool" where
  "has_children w p = list_ex (\<lambda>(q, n). q \<noteq> [] \<and> butlast q = p) (fs w)"

definition put :: "string list \<Rightarrow> inode \<Rightarrow> world \<Rightarrow> world" where
  "put p n w = w\<lparr>fs := AList.update p n (fs w)\<rparr>"

subsection \<open>The calls of package os\<close>

definition stat_path :: "string list \<Rightarrow> world \<Rightarrow> error + inode" where
  "stat_path p w = (case node w p of Some n \<Rightarrow> Inr n | None \<Rightarrow> Inl (lookup_err w p))"

definition os_Stat :: "string \<Rightarrow> world \<Rightarrow> error + inode" where
  "os_Stat name w = stat_path (split_path name) w"

text \<open>\<open>errors.Is(err, os.ErrNotExist)\<close>: among the errors of the model, only \<open>ENOENT\<close>.\<close>

definition isNotExist :: "error \<Rightarrow> bool" where
  "isNotExist e = (e = ENOENT)"

text \<open>
  A new file or directory gets the requested mode with the bits of the umask cleared,
  and the identity of the process.
\<close>

definition new_inode :: "world \<Rightarrow> 32 word \<Rightarrow> FileMode \<Rightarrow> string \<Rightarrow> inode" where
  "new_inode w ftype perm d =
     \<lparr>st_mode = ftype OR (syscallMode perm AND NOT (umask w)),
      st_uid = euid w, st_gid = egid w, data = d\<rparr>"

text \<open>\<open>os.WriteFile\<close>: open with create and truncate, write, close.\<close>

definition os_WriteFile :: "string \<Rightarrow> string \<Rightarrow> FileMode \<Rightarrow> world \<Rightarrow> error option \<times> world" where
  "os_WriteFile name d perm w =
     (let p = split_path name in
      case node w p of
        Some n \<Rightarrow> if IsDir n then (Some EISDIR, w) else (None, put p (n\<lparr>data := d\<rparr>) w)
      | None \<Rightarrow>
          if parent_ok w p then (None, put p (new_inode w S_IFREG perm d) w)
          else (Some (lookup_err w p), w))"

text \<open>\<open>os.Chown\<close>: an id of \<open>-1\<close> leaves that id as it is.\<close>

definition chown_path :: "string list \<Rightarrow> int \<Rightarrow> int \<Rightarrow> world \<Rightarrow> error option \<times> world" where
  "chown_path p uid gid w =
     (case node w p of
        None \<Rightarrow> (Some (lookup_err w p), w)
      | Some n \<Rightarrow>
          (None, put p (n\<lparr>st_uid := (if uid = - 1 then st_uid n else word_of_int uid),
                           st_gid := (if gid = - 1 then st_gid n else word_of_int gid)\<rparr>) w))"

definition os_Chown :: "string \<Rightarrow> int \<Rightarrow> int \<Rightarrow> world \<Rightarrow> error option \<times> world" where
  "os_Chown name uid gid w = chown_path (split_path name) uid gid w"

text \<open>\<open>os.Chmod\<close>: the file type stays, the twelve mode bits become \<open>syscallMode mode\<close>.\<close>

definition chmod_path :: "string list \<Rightarrow> FileMode \<Rightarrow> world \<Rightarrow> error option \<times> world" where
  "chmod_path p mode w =
     (case node w p of
        None \<Rightarrow> (Some (lookup_err w p), w)
      | Some n \<Rightarrow> (None, put p (n\<lparr>st_mode := (st_mode n AND S_IFMT) OR syscallMode mode\<rparr>) w))"

definition os_Chmod :: "string \<Rightarrow> FileMode \<Rightarrow> world \<Rightarrow> error option \<times> world" where
  "os_Chmod name mode w = chmod_path (split_path name) mode w"

definition os_ReadFile :: "string \<Rightarrow> world \<Rightarrow> error + string" where
  "os_ReadFile name w =
     (let p = split_path name in
      case node w p of
        None \<Rightarrow> Inl (lookup_err w p)
      | Some n \<Rightarrow> if IsDir n then Inl EISDIR else Inr (data n))"

text \<open>\<open>os.Remove\<close>: unlink a file, or remove a directory that is empty.\<close>

definition remove_path :: "string list \<Rightarrow> world \<Rightarrow> error option \<times> world" where
  "remove_path p w =
     (case node w p of
        None \<Rightarrow> (Some (lookup_err w p), w)
      | Some n \<Rightarrow>
          if IsDir n \<and> has_children w p then (Some ENOTEMPTY, w)
          else (None, w\<lparr>fs := AList.delete p (fs w)\<rparr>))"

definition os_Remove :: "string \<Rightarrow> world \<Rightarrow> error option \<times> world" where
  "os_Remove name w = remove_path (split_path name) w"

text \<open>
  \<open>os.Rename\<close>: the inode of \<open>old\<close> moves to \<open>new\<close>, replacing a file or an empty
  directory that is there; with a directory, everything below it moves along.
\<close>

definition is_below :: "string list \<Rightarrow> string list \<Rightarrow> bool" where
  "is_below p q = (take (length p) q = p)"

definition move_tree :: "string list \<Rightarrow> string list \<Rightarrow> (string list \<times> inode) list \<Rightarrow> (string list \<times> inode) list" where
  "move_tree old new al =
     map (\<lambda>(q, n). if is_below old q then (new @ drop (length old) q, n) else (q, n)) al"

definition moved :: "inode \<Rightarrow> string list \<Rightarrow> string list \<Rightarrow> (string list \<times> inode) list \<Rightarrow> (string list \<times> inode) list" where
  "moved n old new al =
     (if IsDir n then move_tree old new al else AList.update new n (AList.delete old al))"

definition rename_path :: "string list \<Rightarrow> string list \<Rightarrow> world \<Rightarrow> error option \<times> world" where
  "rename_path old new w =
     (case node w old of
        None \<Rightarrow> (Some (lookup_err w old), w)
      | Some n \<Rightarrow>
          if old = new then (None, w)
          else if is_below old new then (Some EINVAL, w)
          else
            (case node w new of
               None \<Rightarrow>
                 if parent_ok w new
                 then (None, w\<lparr>fs := moved n old new (fs w)\<rparr>)
                 else (Some (lookup_err w new), w)
             | Some m \<Rightarrow>
                 if IsDir m \<and> \<not> IsDir n then (Some EISDIR, w)
                 else if IsDir n \<and> \<not> IsDir m then (Some ENOTDIR, w)
                 else if IsDir m \<and> has_children w new then (Some ENOTEMPTY, w)
                 else (None, w\<lparr>fs := moved n old new (AList.delete new (fs w))\<rparr>)))"

text \<open>\<open>os.Mkdir\<close> and \<open>os.MkdirAll\<close> (path.go), the latter with its recursion on the parent.\<close>

definition mkdir_path :: "string list \<Rightarrow> FileMode \<Rightarrow> world \<Rightarrow> error option \<times> world" where
  "mkdir_path p perm w =
     (case node w p of
        Some n \<Rightarrow> (Some EEXIST, w)
      | None \<Rightarrow>
          if parent_ok w p then (None, put p (new_inode w S_IFDIR perm []) w)
          else (Some (lookup_err w p), w))"

definition os_Mkdir :: "string \<Rightarrow> FileMode \<Rightarrow> world \<Rightarrow> error option \<times> world" where
  "os_Mkdir name perm w = mkdir_path (split_path name) perm w"

definition mkdir_checked :: "string list \<Rightarrow> FileMode \<Rightarrow> world \<Rightarrow> error option \<times> world" where
  "mkdir_checked p perm w =
     (case mkdir_path p perm w of
        (None, w') \<Rightarrow> (None, w')
      | (Some e, w') \<Rightarrow>
          (case stat_path p w' of
             Inr n \<Rightarrow> if IsDir n then (None, w') else (Some e, w')
           | Inl e1 \<Rightarrow> (Some e, w')))"

function mkdirAll_path :: "string list \<Rightarrow> FileMode \<Rightarrow> world \<Rightarrow> error option \<times> world" where
  "mkdirAll_path p perm w =
     (case stat_path p w of
        Inr n \<Rightarrow> if IsDir n then (None, w) else (Some ENOTDIR, w)
      | Inl e0 \<Rightarrow>
          if length p \<le> 1 then mkdir_checked p perm w
          else
            (case mkdirAll_path (butlast p) perm w of
               (Some e, w') \<Rightarrow> (Some e, w')
             | (None, w') \<Rightarrow> mkdir_checked p perm w'))"
  by pat_completeness auto
termination
  by (relation "measure (\<lambda>(p, perm, w). length p)") auto

declare mkdirAll_path.simps [simp del]

definition os_MkdirAll :: "string \<Rightarrow> FileMode \<Rightarrow> world \<Rightarrow> error option \<times> world" where
  "os_MkdirAll name perm w = mkdirAll_path (split_path name) perm w"

text \<open>
  \<open>os.CreateTemp(dir, ".*.tmp")\<close>: a random name between the dot and \<open>.tmp\<close>, created
  exclusively with mode 0600; a name that is taken is drawn again, ten thousand times at
  most. The result is the path of the new file.
\<close>

definition temp_name :: "world \<Rightarrow> string" where
  "temp_name w = ''.'' @ rand w (rand_next w) @ ''.tmp''"

fun CreateTemp_try :: "nat \<Rightarrow> string list \<Rightarrow> world \<Rightarrow> (error + string list) \<times> world" where
  "CreateTemp_try 0 dir w = (Inl EEXIST, w)"
| "CreateTemp_try (Suc k) dir w =
     (let t = dir @ [temp_name w];
          w1 = w\<lparr>rand_next := Suc (rand_next w)\<rparr>
      in case node w1 t of
           Some n \<Rightarrow> CreateTemp_try k dir w1
         | None \<Rightarrow>
             if parent_ok w1 t then (Inr t, put t (new_inode w1 S_IFREG 384 []) w1)
             else (Inl (lookup_err w1 t), w1))"

definition os_CreateTemp :: "string list \<Rightarrow> world \<Rightarrow> (error + string list) \<times> world" where
  "os_CreateTemp dir w = CreateTemp_try 10000 dir w"

text \<open>\<open>(*os.File).WriteString\<close> on the file just created: its bytes grow by the string.\<close>

definition file_WriteString :: "string list \<Rightarrow> string \<Rightarrow> world \<Rightarrow> error option \<times> world" where
  "file_WriteString t s w =
     (case node w t of
        None \<Rightarrow> (Some ENOENT, w)
      | Some n \<Rightarrow> (None, put t (n\<lparr>data := data n @ s\<rparr>) w))"

text \<open>\<open>filepath.Dir\<close>, on components.\<close>

definition Dir :: "string \<Rightarrow> string list" where
  "Dir name = butlast (split_path name)"


subsection \<open>Names of users and groups\<close>

text \<open>
  \<open>getUserAndGroup\<close> (config.go). A nil or empty name gives the id \<open>-1\<close>; a name is
  looked up first, the user before the group.
\<close>

definition lookup_id :: "(string \<Rightarrow> lookup) \<Rightarrow> string \<Rightarrow> string \<Rightarrow> (string \<Rightarrow> error) \<Rightarrow> string option \<Rightarrow> error + int" where
  "lookup_id db what idname unknown name =
     (case name of
        None \<Rightarrow> Inr (- 1)
      | Some n \<Rightarrow>
          if n = [] then Inr (- 1)
          else
            (case db n of
               NotFound \<Rightarrow> Inl (Wrapf (''unble to determine '' @ idname @ '' for '' @ what @ '' '' @ n) (unknown n))
             | BadId i \<Rightarrow> Inl (Wrapf (''unexpected '' @ idname @ '' for '' @ what @ '' '' @ n @ '' '' @ i) EINVAL)
             | Found i \<Rightarrow> Inr i))"

definition getUserAndGroup :: "string option \<Rightarrow> string option \<Rightarrow> world \<Rightarrow> error + (int \<times> int)" where
  "getUserAndGroup username groupname w =
     (case lookup_id (users w) ''user'' ''uid'' UnknownUserError username of
        Inl e \<Rightarrow> Inl e
      | Inr userID \<Rightarrow>
          (case lookup_id (groups w) ''group'' ''gid'' UnknownGroupError groupname of
             Inl e \<Rightarrow> Inl e
           | Inr groupID \<Rightarrow> Inr (userID, groupID)))"

section \<open>Reconcilers\<close>

text \<open>
  Every \<open>Run\<close> has the same shape: it returns at once with an error, returns at once
  with nothing to do, or builds a list of tasks, hands it to \<open>runTasks\<close> and returns the
  notify target when a task reported a change. The three outcomes of the first part are
  a \<open>plan\<close>; \<open>run_plan\<close> is the common last part.
\<close>

datatype 's plan = Abort error | NoOp | Tasks "'s task list"

definition run_plan :: "string \<Rightarrow> 's plan \<Rightarrow> 's \<Rightarrow> (error + string) \<times> 's" where
  "run_plan notify pl w =
     (case pl of
        Abort e \<Rightarrow> (Inl e, w)
      | NoOp \<Rightarrow> (Inr [], w)
      | Tasks tasks \<Rightarrow>
          (case runTasks tasks w of
             ((changed, Some e), w') \<Rightarrow> (Inl e, w')
           | ((changed, None), w') \<Rightarrow> (Inr (if changed then notify else []), w')))"

text \<open>\<open>return c, op(...)\<close> and \<open>return false, nil\<close> as tasks.\<close>

definition returning :: "bool \<Rightarrow> ('s \<Rightarrow> error option \<times> 's) \<Rightarrow> 's task" where
  "returning c op = (\<lambda>w. case op w of (e, w') \<Rightarrow> ((c, e), w'))"

definition skip :: "'s task" where
  "skip = (\<lambda>w. ((False, None), w))"

subsection \<open>File (file.go)\<close>

record fileResource =
  File_Path :: string
  File_Contents :: "string option"
  File_Owner :: "string option"
  File_Group :: "string option"
  File_Mode :: "FileMode option"
  File_State :: "string option"
  File_Notify :: string

text \<open>\<open>copyPermissions\<close> (config.go), with the destination given by its components.\<close>

definition copyPermissions :: "string \<Rightarrow> string list \<Rightarrow> world \<Rightarrow> error option \<times> world" where
  "copyPermissions src dst w =
     (case os_Stat src w of
        Inl e \<Rightarrow> (Some e, w)
      | Inr stat \<Rightarrow>
          (case chown_path dst (uint (st_uid stat)) (uint (st_gid stat)) w of
             (Some e, w1) \<Rightarrow> (Some (Wrapf ''failed to change ownership of destination file'' e), w1)
           | (None, w1) \<Rightarrow>
               (case chmod_path dst (st_mode stat) w1 of
                  (Some e, w2) \<Rightarrow> (Some (Wrapf ''failed to chmod'' e), w2)
                | (None, w2) \<Rightarrow> (None, w2))))"

text \<open>
  The tasks of \<open>fileResource.Run\<close>, in the order of the source. The first three are
  those of a missing path, then the removal, then the four of an existing file, which
  close over the \<open>Stat\<close> taken before any task ran. On the platform modelled
  \<open>fileInfo.Sys()\<close> is always a \<open>*syscall.Stat_t\<close>, so the error return for any other
  value is left out. The owner, group and mode tasks of an existing path are the same
  in file.go and directory.go and are defined once.
\<close>

definition file_create_task :: "fileResource \<Rightarrow> FileMode \<Rightarrow> world task" where
  "file_create_task f mode =
     returning True
       (os_WriteFile (File_Path f) (case File_Contents f of Some c \<Rightarrow> c | None \<Rightarrow> []) mode)"

definition new_owner_task :: "string \<Rightarrow> int \<Rightarrow> world task" where
  "new_owner_task path userID =
     (if userID = - 1 then skip else returning True (os_Chown path userID (- 1)))"

definition new_group_task :: "string \<Rightarrow> int \<Rightarrow> world task" where
  "new_group_task path groupID =
     (if groupID = - 1 then skip else returning True (os_Chown path (- 1) groupID))"

definition file_remove_task :: "fileResource \<Rightarrow> world task" where
  "file_remove_task f = returning True (os_Remove (File_Path f))"

definition owner_task :: "string \<Rightarrow> inode \<Rightarrow> int \<Rightarrow> world task" where
  "owner_task path sysStat userID =
     (if userID = - 1 \<or> st_uid sysStat = word_of_int userID then skip
      else returning True (os_Chown path userID (- 1)))"

definition group_task :: "string \<Rightarrow> inode \<Rightarrow> int \<Rightarrow> world task" where
  "group_task path sysStat groupID =
     (if groupID = - 1 \<or> st_gid sysStat = word_of_int groupID then skip
      else returning True (os_Chown path (- 1) groupID))"

definition mode_task :: "string \<Rightarrow> inode \<Rightarrow> FileMode option \<Rightarrow> world task" where
  "mode_task path fileInfo mode =
     (case mode of
        None \<Rightarrow> skip
      | Some m \<Rightarrow>
          if Perm (fileModeOfStat (st_mode fileInfo)) = Perm m then skip
          else returning True (os_Chmod path m))"

text \<open>
  The contents task. The deferred function closes the temporary file and removes its
  name whatever the outcome; \<open>cleanup\<close> is that removal, its error dropped. A failure
  of \<open>CreateTemp\<close> returns before the \<open>defer\<close>. Closing a file does not fail in the
  model.
\<close>

definition cleanup :: "string list \<Rightarrow> (bool \<times> error option) \<times> world \<Rightarrow> (bool \<times> error option) \<times> world" where
  "cleanup t r = (case r of (res, w) \<Rightarrow> (res, snd (remove_path t w)))"

definition file_contents_task :: "fileResource \<Rightarrow> world task" where
  "file_contents_task f =
     (\<lambda>w. case File_Contents f of
        None \<Rightarrow> ((False, None), w)
      | Some desired \<Rightarrow>
          (case os_ReadFile (File_Path f) w of
             Inl e \<Rightarrow> ((False, Some (Wrapf (''failed to read '' @ File_Path f) e)), w)
           | Inr contents \<Rightarrow>
               if contents = desired then ((False, None), w)
               else
                 (case os_CreateTemp (Dir (File_Path f)) w of
                    (Inl e, w1) \<Rightarrow>
                      ((False, Some (Wrapf (''failed to create temp file for '' @ File_Path f) e)), w1)
                  | (Inr t, w1) \<Rightarrow>
                      cleanup t
                        (case file_WriteString t desired w1 of
                           (Some e, w2) \<Rightarrow>
                             ((False, Some (Wrapf (''failed to write to temp file for '' @ File_Path f) e)), w2)
                         | (None, w2) \<Rightarrow>
                             (case copyPermissions (File_Path f) t w2 of
                                (Some e, w3) \<Rightarrow> ((False, Some e), w3)
                              | (None, w3) \<Rightarrow>
                                  (case rename_path t (split_path (File_Path f)) w3 of
                                     (Some e, w4) \<Rightarrow>
                                       ((False, Some (Wrapf (''failed to rename temp file for '' @ File_Path f) e)), w4)
                                   | (None, w4) \<Rightarrow> ((True, None), w4)))))))"

definition file_shouldExist :: "fileResource \<Rightarrow> bool" where
  "file_shouldExist f = (case File_State f of None \<Rightarrow> True | Some st \<Rightarrow> st \<noteq> ''absent'')"

definition fileResource_plan :: "fileResource \<Rightarrow> world \<Rightarrow> world plan" where
  "fileResource_plan f w =
     (case getUserAndGroup (File_Owner f) (File_Group f) w of
        Inl e \<Rightarrow> Abort e
      | Inr (userID, groupID) \<Rightarrow>
          (case os_Stat (File_Path f) w of
             Inl err \<Rightarrow>
               if \<not> isNotExist err then Abort (Wrapf (''failed to stat '' @ File_Path f) err)
               else if \<not> file_shouldExist f then NoOp
               else
                 (let mode = (case File_Mode f of Some m \<Rightarrow> m | None \<Rightarrow> defaultFileMode)
                  in Tasks [file_create_task f mode,
                            new_owner_task (File_Path f) userID,
                            new_group_task (File_Path f) groupID])
           | Inr fileInfo \<Rightarrow>
               if IsDir fileInfo then Abort (Errorf (File_Path f @ '' is a directory''))
               else if \<not> file_shouldExist f then Tasks [file_remove_task f]
               else Tasks [owner_task (File_Path f) fileInfo userID,
                           group_task (File_Path f) fileInfo groupID,
                           mode_task (File_Path f) fileInfo (File_Mode f),
                           file_contents_task f]))"

definition fileResource_Run :: "fileResource \<Rightarrow> world \<Rightarrow> (error + string) \<times> world" where
  "fileResource_Run f w = run_plan (File_Notify f) (fileResource_plan f w) w"

subsection \<open>Directory (directory.go)\<close>

record directoryResource =
  Dir_Path :: string
  Dir_Owner :: "string option"
  Dir_Group :: "string option"
  Dir_Mode :: "FileMode option"
  Dir_Recursive :: bool
  Dir_Notify :: string

definition dir_create_task :: "directoryResource \<Rightarrow> FileMode \<Rightarrow> world task" where
  "dir_create_task d mode =
     (if Dir_Recursive d then returning True (os_MkdirAll (Dir_Path d) mode)
      else returning True (os_Mkdir (Dir_Path d) mode))"

definition directoryResource_plan :: "directoryResource \<Rightarrow> world \<Rightarrow> world plan" where
  "directoryResource_plan d w =
     (case getUserAndGroup (Dir_Owner d) (Dir_Group d) w of
        Inl e \<Rightarrow> Abort e
      | Inr (userID, groupID) \<Rightarrow>
          (case os_Stat (Dir_Path d) w of
             Inl err \<Rightarrow>
               if \<not> isNotExist err then Abort (Wrapf (''failed to stat '' @ Dir_Path d) err)
               else
                 (let mode = (case Dir_Mode d of Some m \<Rightarrow> m | None \<Rightarrow> defaultDirMode)
                  in Tasks [dir_create_task d mode,
                            new_owner_task (Dir_Path d) userID,
                            new_group_task (Dir_Path d) groupID])
           | Inr dirInfo \<Rightarrow>
               if \<not> IsDir dirInfo then Abort (Errorf (Dir_Path d @ '' is not a directory''))
               else Tasks [owner_task (Dir_Path d) dirInfo userID,
                           group_task (Dir_Path d) dirInfo groupID,
                           mode_task (Dir_Path d) dirInfo (Dir_Mode d)]))"

definition directoryResource_Run :: "directoryResource \<Rightarrow> world \<Rightarrow> (error + string) \<times> world" where
  "directoryResource_Run d w = run_plan (Dir_Notify d) (directoryResource_plan d w) w"


section \<open>External commands\<close>

text \<open>
  \<open>exec.CommandContext(...)\<close> followed by \<open>Run\<close>, \<open>Output\<close> or \<open>CombinedOutput\<close>: the
  command is answered by \<open>system\<close> and recorded. The error is nil exactly for exit
  status 0, and an \<open>*exec.ExitError\<close> for every other exit status. One string stands for
  the output, standard or combined; the environment variables of a command are not kept.
\<close>

definition exec :: "string list \<Rightarrow> world \<Rightarrow> cmd_result \<times> world" where
  "exec cmd w = (system w (cmdlog w) cmd, w\<lparr>cmdlog := cmdlog w @ [cmd]\<rparr>)"

definition cmd_err :: "cmd_result \<Rightarrow> error option" where
  "cmd_err r =
     (case r of
        Exited c out \<Rightarrow> if c = 0 then None else Some (ExitError c)
      | NotStarted e \<Rightarrow> Some e)"

definition cmd_output :: "cmd_result \<Rightarrow> string" where
  "cmd_output r = (case r of Exited c out \<Rightarrow> out | NotStarted e \<Rightarrow> [])"

text \<open>\<open>strings.Contains\<close> and \<open>strings.TrimSpace\<close>.\<close>

fun Contains :: "string \<Rightarrow> string \<Rightarrow> bool" where
  "Contains [] substr = (substr = [])"
| "Contains (c # cs) substr = (take (length substr) (c # cs) = substr \<or> Contains cs substr)"

definition isSpace :: "char \<Rightarrow> bool" where
  "isSpace c = (c \<in> set [CHR '' '', CHR 0x09, CHR 0x0A, CHR 0x0B, CHR 0x0C, CHR 0x0D])"

definition TrimSpace :: "string \<Rightarrow> string" where
  "TrimSpace s = rev (dropWhile isSpace (rev (dropWhile isSpace s)))"

section \<open>Packages (package.go)\<close>

text \<open>
  The interface \<open>packageManager\<close> is a record of its three methods, acting on whatever
  state \<open>'w\<close> the implementation has. \<open>Run\<close> takes the manager it uses as an argument:
  the field \<open>manager\<close> when a test sets it, \<open>aptPackageManager\<close> when it is nil.
\<close>

record 'w packageManager =
  IsInstalled :: "string \<Rightarrow> 'w \<Rightarrow> (error + bool) \<times> 'w"
  Install :: "string \<Rightarrow> 'w \<Rightarrow> error option \<times> 'w"
  Uninstall :: "string \<Rightarrow> 'w \<Rightarrow> error option \<times> 'w"

record packageResource =
  Pkg_Name :: string
  Pkg_State :: string
  Pkg_Notify :: string

definition package_task :: "'w packageManager \<Rightarrow> packageResource \<Rightarrow> 'w task" where
  "package_task manager s =
     (\<lambda>w. case IsInstalled manager (Pkg_Name s) w of
        (Inl err, w1) \<Rightarrow> ((False, Some (Wrapf (''failed to get status for '' @ Pkg_Name s) err)), w1)
      | (Inr isInstalled, w1) \<Rightarrow>
          if Pkg_State s = ''installed'' then
            (if isInstalled then ((False, None), w1)
             else returning True (Install manager (Pkg_Name s)) w1)
          else if Pkg_State s = ''absent'' then
            (if \<not> isInstalled then ((False, None), w1)
             else returning True (Uninstall manager (Pkg_Name s)) w1)
          else ((False, Some (Errorf (''unexpected package state '' @ Pkg_State s))), w1))"

definition packageResource_Run :: "'w packageManager \<Rightarrow> packageResource \<Rightarrow> 'w \<Rightarrow> (error + string) \<times> 'w" where
  "packageResource_Run manager s w = run_plan (Pkg_Notify s) (Tasks [package_task manager s]) w"

definition apt_IsInstalled :: "string \<Rightarrow> world \<Rightarrow> (error + bool) \<times> world" where
  "apt_IsInstalled packageName w =
     (case exec [''dpkg'', ''-s'', packageName] w of
        (r, w1) \<Rightarrow>
          (case cmd_err r of
             None \<Rightarrow> (Inr True, w1)
           | Some err \<Rightarrow>
               (case err of
                  ExitError c \<Rightarrow>
                    if c = 1 then (Inr False, w1)
                    else (Inl (Wrapf (''failed to check package '' @ packageName @ '' status'') err), w1)
                | _ \<Rightarrow> (Inl (Wrapf (''failed to check package '' @ packageName @ '' status'') err), w1))))"

definition apt_Install :: "string \<Rightarrow> world \<Rightarrow> error option \<times> world" where
  "apt_Install packageName w =
     (case exec [''apt'', ''update''] w of
        (r0, w1) \<Rightarrow>
          (case exec [''apt'', ''install'', ''-y'', packageName] w1 of
             (r, w2) \<Rightarrow>
               (case cmd_err r of
                  Some err \<Rightarrow>
                    (Some (Wrapf (''failed to install package '' @ packageName @ '' (output: '' @ cmd_output r @ '')'') err), w2)
                | None \<Rightarrow> (None, w2))))"

definition apt_Uninstall :: "string \<Rightarrow> world \<Rightarrow> error option \<times> world" where
  "apt_Uninstall packageName w =
     (case exec [''apt'', ''remove'', ''-y'', packageName] w of
        (r, w1) \<Rightarrow>
          (case cmd_err r of
             Some err \<Rightarrow>
               (Some (Wrapf (''failed to uninstall package '' @ packageName @ '' (output: '' @ cmd_output r @ '')'') err), w1)
           | None \<Rightarrow> (None, w1)))"

definition aptPackageManager :: "world packageManager" where
  "aptPackageManager = \<lparr>IsInstalled = apt_IsInstalled, Install = apt_Install, Uninstall = apt_Uninstall\<rparr>"

section \<open>Services (service.go)\<close>

record 'w serviceManager =
  IsRunning :: "string \<Rightarrow> 'w \<Rightarrow> (error + bool) \<times> 'w"
  Start :: "string \<Rightarrow> 'w \<Rightarrow> error option \<times> 'w"
  Stop :: "string \<Rightarrow> 'w \<Rightarrow> error option \<times> 'w"

record serviceResource =
  Svc_Name :: string
  Svc_State :: string
  Svc_Notify :: string

definition service_task :: "'w serviceManager \<Rightarrow> serviceResource \<Rightarrow> 'w task" where
  "service_task manager s =
     (\<lambda>w. case IsRunning manager (Svc_Name s) w of
        (Inl err, w1) \<Rightarrow> ((False, Some (Wrapf (''failed to get status for '' @ Svc_Name s) err)), w1)
      | (Inr isRunning, w1) \<Rightarrow>
          if Svc_State s = ''running'' then
            (if isRunning then ((False, None), w1)
             else returning True (Start manager (Svc_Name s)) w1)
          else if Svc_State s = ''stopped'' then
            (if \<not> isRunning then ((False, None), w1)
             else returning True (Stop manager (Svc_Name s)) w1)
          else ((False, Some (Errorf (''unexpected service state '' @ Svc_State s))), w1))"

definition serviceResource_Run :: "'w serviceManager \<Rightarrow> serviceResource \<Rightarrow> 'w \<Rightarrow> (error + string) \<times> 'w" where
  "serviceResource_Run manager s w = run_plan (Svc_Notify s) (Tasks [service_task manager s]) w"

text \<open>
  \<open>systemdServiceManager\<close>. \<open>unmaskIfNeeded\<close> returns \<open>originalErr\<close> when the output
  does not contain \<open>masked\<close>; \<open>Start\<close> and \<open>Restart\<close> call it with \<open>nil\<close> for
  \<open>originalErr\<close>, as the source does. The two differ in the verb only.
\<close>

definition unmaskIfNeeded :: "string \<Rightarrow> string \<Rightarrow> error option \<Rightarrow> world \<Rightarrow> error option \<times> world" where
  "unmaskIfNeeded service output originalErr w =
     (if \<not> Contains output ''masked'' then (originalErr, w)
      else
        (case exec [''systemctl'', ''unmask'', service] w of
           (r, w1) \<Rightarrow>
             (case cmd_err r of
                Some unmaskErr \<Rightarrow>
                  (Some (Wrapf (''failed to unmask service '' @ service @ '': (output: '' @ cmd_output r @ '')'') unmaskErr), w1)
              | None \<Rightarrow> (None, w1))))"

definition systemctl_retrying :: "string \<Rightarrow> string \<Rightarrow> world \<Rightarrow> error option \<times> world" where
  "systemctl_retrying verb service w =
     (case exec [''systemctl'', verb, service] w of
        (r, w1) \<Rightarrow>
          (case cmd_err r of
             Some err \<Rightarrow>
               (case unmaskIfNeeded service (cmd_output r) None w1 of
                  (None, w2) \<Rightarrow>
                    (case exec [''systemctl'', verb, service] w2 of
                       (retry, w3) \<Rightarrow>
                         (case cmd_err retry of
                            Some retryErr \<Rightarrow>
                              (Some (Wrapf (''failed to '' @ verb @ '' service '' @ service @ '' after unmasking: (output: '' @ cmd_output retry @ '')'') retryErr), w3)
                          | None \<Rightarrow> (None, w3)))
                | (Some unmaskErr, w2) \<Rightarrow>
                    (Some (Wrapf (''failed to '' @ verb @ '' service '' @ service @ '': (output: '' @ cmd_output r @ '')'') err), w2))
           | None \<Rightarrow> (None, w1)))"

definition systemd_Start :: "string \<Rightarrow> world \<Rightarrow> error option \<times> world" where
  "systemd_Start service w = systemctl_retrying ''start'' service w"

definition systemd_Restart :: "string \<Rightarrow> world \<Rightarrow> error option \<times> world" where
  "systemd_Restart service w = systemctl_retrying ''restart'' service w"

definition systemd_Stop :: "string \<Rightarrow> world \<Rightarrow> error option \<times> world" where
  "systemd_Stop service w =
     (case exec [''systemctl'', ''stop'', service] w of
        (r, w1) \<Rightarrow>
          (case cmd_err r of
             Some err \<Rightarrow>
               (Some (Wrapf (''failed to stop service '' @ service @ '': (output: '' @ cmd_output r @ '')'') err), w1)
           | None \<Rightarrow> (None, w1)))"

definition systemd_IsRunning :: "string \<Rightarrow> world \<Rightarrow> (error + bool) \<times> world" where
  "systemd_IsRunning service w =
     (case exec [''systemctl'', ''is-active'', service] w of
        (r, w1) \<Rightarrow>
          (case cmd_err r of
             Some err \<Rightarrow>
               (case err of
                  ExitError c \<Rightarrow>
                    if c = 3 then (Inr False, w1)
                    else (Inl (Wrapf (''failed to check service '' @ service @ '' status'') err), w1)
                | _ \<Rightarrow> (Inl (Wrapf (''failed to check service '' @ service @ '' status'') err), w1))
           | None \<Rightarrow> (Inr (TrimSpace (cmd_output r) = ''active''), w1)))"

definition systemdServiceManager :: "world serviceManager" where
  "systemdServiceManager = \<lparr>IsRunning = systemd_IsRunning, Start = systemd_Start, Stop = systemd_Stop\<rparr>"

text \<open>
  \<open>notifyServices\<close>: the interface \<open>serviceNotifier\<close> has the one method \<open>Restart\<close>, so
  a notifier is that function; a caller that passes nil gets \<open>systemd_Restart\<close>.
\<close>

fun notifyServices :: "(string \<Rightarrow> 'w \<Rightarrow> error option \<times> 'w) \<Rightarrow> string list \<Rightarrow> 'w \<Rightarrow> error option \<times> 'w" where
  "notifyServices notifier [] w = (None, w)"
| "notifyServices notifier (service # services) w =
     (case notifier service w of
        (Some err, w') \<Rightarrow> (Some err, w')
      | (None, w') \<Rightarrow> notifyServices notifier services w')"


section \<open>The configuration (config.go)\<close>

text \<open>
  \<open>yaml.Unmarshal\<close> of sigs.k8s.io/yaml turns the YAML text into JSON and decodes that
  with encoding/json. The reading of the text is a parameter \<open>yaml\<close> of \<open>configFromBytes\<close>,
  from the bytes to the JSON value or an error; the decoding into the structs is modelled.
  Keys are compared as written, and a number is an integer.
\<close>

datatype jvalue =
    JNull
  | JBool bool
  | JNumber int
  | JString string
  | JArray "jvalue list"
  | JObject "(string \<times> jvalue) list"

record resource =
  Type :: string
  File :: "fileResource option"
  Directory :: "directoryResource option"
  Service :: "serviceResource option"
  Package :: "packageResource option"

record config =
  Resources :: "resource list"

text \<open>A key of an object; of two equal keys the later one stands, a missing key reads as null.\<close>

definition field :: "(string \<times> jvalue) list \<Rightarrow> string \<Rightarrow> jvalue" where
  "field obj k = (case map_of (rev obj) k of Some v \<Rightarrow> v | None \<Rightarrow> JNull)"

definition type_error :: "string \<Rightarrow> error" where
  "type_error k = Errorf (''json: cannot unmarshal into Go struct field '' @ k)"

definition as_string :: "(string \<times> jvalue) list \<Rightarrow> string \<Rightarrow> error + string" where
  "as_string obj k =
     (case field obj k of JNull \<Rightarrow> Inr [] | JString v \<Rightarrow> Inr v | _ \<Rightarrow> Inl (type_error k))"

definition as_string_ptr :: "(string \<times> jvalue) list \<Rightarrow> string \<Rightarrow> error + string option" where
  "as_string_ptr obj k =
     (case field obj k of JNull \<Rightarrow> Inr None | JString v \<Rightarrow> Inr (Some v) | _ \<Rightarrow> Inl (type_error k))"

definition as_bool :: "(string \<times> jvalue) list \<Rightarrow> string \<Rightarrow> error + bool" where
  "as_bool obj k =
     (case field obj k of JNull \<Rightarrow> Inr False | JBool v \<Rightarrow> Inr v | _ \<Rightarrow> Inl (type_error k))"

definition as_mode_ptr :: "(string \<times> jvalue) list \<Rightarrow> string \<Rightarrow> error + FileMode option" where
  "as_mode_ptr obj k =
     (case field obj k of
        JNull \<Rightarrow> Inr None
      | JNumber v \<Rightarrow> if 0 \<le> v \<and> v < 4294967296 then Inr (Some (word_of_int v)) else Inl (type_error k)
      | _ \<Rightarrow> Inl (type_error k))"

definition as_notify :: "(string \<times> jvalue) list \<Rightarrow> error + string" where
  "as_notify obj =
     (case field obj ''notify'' of
        JNull \<Rightarrow> Inr []
      | JObject n \<Rightarrow> as_string n ''service''
      | _ \<Rightarrow> Inl (type_error ''notify''))"

definition bind :: "error + 'a \<Rightarrow> ('a \<Rightarrow> error + 'b) \<Rightarrow> error + 'b" where
  "bind r k = (case r of Inl e \<Rightarrow> Inl e | Inr v \<Rightarrow> k v)"

text \<open>\<open>json.Unmarshal\<close> into each of the four structs, field by field.\<close>

definition unmarshal_file :: "(string \<times> jvalue) list \<Rightarrow> error + fileResource" where
  "unmarshal_file obj =
     bind (as_string obj ''path'') (\<lambda>path.
     bind (as_string_ptr obj ''contents'') (\<lambda>contents.
     bind (as_string_ptr obj ''owner'') (\<lambda>owner.
     bind (as_string_ptr obj ''group'') (\<lambda>grp.
     bind (as_mode_ptr obj ''mode'') (\<lambda>mode.
     bind (as_string_ptr obj ''state'') (\<lambda>state.
     bind (as_notify obj) (\<lambda>notify.
       Inr \<lparr>File_Path = path, File_Contents = contents, File_Owner = owner, File_Group = grp,
            File_Mode = mode, File_State = state, File_Notify = notify\<rparr>)))))))"

definition unmarshal_directory :: "(string \<times> jvalue) list \<Rightarrow> error + directoryResource" where
  "unmarshal_directory obj =
     bind (as_string obj ''path'') (\<lambda>path.
     bind (as_string_ptr obj ''owner'') (\<lambda>owner.
     bind (as_string_ptr obj ''group'') (\<lambda>grp.
     bind (as_mode_ptr obj ''mode'') (\<lambda>mode.
     bind (as_bool obj ''recursive'') (\<lambda>recursive.
     bind (as_notify obj) (\<lambda>notify.
       Inr \<lparr>Dir_Path = path, Dir_Owner = owner, Dir_Group = grp, Dir_Mode = mode,
            Dir_Recursive = recursive, Dir_Notify = notify\<rparr>))))))"

definition unmarshal_service :: "(string \<times> jvalue) list \<Rightarrow> error + serviceResource" where
  "unmarshal_service obj =
     bind (as_string obj ''name'') (\<lambda>name.
     bind (as_string obj ''state'') (\<lambda>state.
     bind (as_notify obj) (\<lambda>notify.
       Inr \<lparr>Svc_Name = name, Svc_State = state, Svc_Notify = notify\<rparr>)))"

definition unmarshal_package :: "(string \<times> jvalue) list \<Rightarrow> error + packageResource" where
  "unmarshal_package obj =
     bind (as_string obj ''name'') (\<lambda>name.
     bind (as_string obj ''state'') (\<lambda>state.
     bind (as_notify obj) (\<lambda>notify.
       Inr \<lparr>Pkg_Name = name, Pkg_State = state, Pkg_Notify = notify\<rparr>)))"

text \<open>\<open>resource.UnmarshalJSON\<close>: the type first, then the struct the type selects.\<close>

definition empty_resource :: "string \<Rightarrow> resource" where
  "empty_resource t = \<lparr>Type = t, File = None, Directory = None, Service = None, Package = None\<rparr>"

definition UnmarshalJSON :: "jvalue \<Rightarrow> error + resource" where
  "UnmarshalJSON v =
     (case v of
        JObject obj \<Rightarrow>
          bind (as_string obj ''type'') (\<lambda>t.
            if t = ''file'' then
              bind (unmarshal_file obj) (\<lambda>f. Inr ((empty_resource t)\<lparr>File := Some f\<rparr>))
            else if t = ''directory'' then
              bind (unmarshal_directory obj) (\<lambda>d. Inr ((empty_resource t)\<lparr>Directory := Some d\<rparr>))
            else if t = ''service'' then
              bind (unmarshal_service obj) (\<lambda>s. Inr ((empty_resource t)\<lparr>Service := Some s\<rparr>))
            else if t = ''package'' then
              bind (unmarshal_package obj) (\<lambda>p. Inr ((empty_resource t)\<lparr>Package := Some p\<rparr>))
            else Inl (Errorf (''unknown resource type: '' @ t)))
      | JNull \<Rightarrow> Inl (Errorf ''unknown resource type: '')
      | _ \<Rightarrow> Inl (type_error ''type''))"

fun unmarshal_resources :: "jvalue list \<Rightarrow> error + resource list" where
  "unmarshal_resources [] = Inr []"
| "unmarshal_resources (v # vs) =
     bind (UnmarshalJSON v) (\<lambda>r. bind (unmarshal_resources vs) (\<lambda>rs. Inr (r # rs)))"

definition unmarshal_config :: "jvalue \<Rightarrow> error + config" where
  "unmarshal_config v =
     (case v of
        JNull \<Rightarrow> Inr \<lparr>Resources = []\<rparr>
      | JObject obj \<Rightarrow>
          (case field obj ''resources'' of
             JNull \<Rightarrow> Inr \<lparr>Resources = []\<rparr>
           | JArray vs \<Rightarrow> bind (unmarshal_resources vs) (\<lambda>rs. Inr \<lparr>Resources = rs\<rparr>)
           | _ \<Rightarrow> Inl (type_error ''resources''))
      | _ \<Rightarrow> Inl (type_error ''config''))"

text \<open>
  The validation tags, as go-playground/validator checks them. \<open>required\<close> on a string
  refuses the empty string; \<open>oneof\<close> refuses a value outside its list; \<open>omitempty\<close>
  on a pointer skips the rest when the pointer is nil.

  \<open>validate.Struct\<close> applies the tags of the fields of the struct it is given. It goes
  into the elements of a slice only under the tag \<open>dive\<close>, and the field \<open>Resources\<close> of
  \<open>config\<close> has no tag: the call on \<open>&cfg\<close> checks nothing, the tag
  \<open>required,oneof=file directory service\<close> on \<open>resource.Type\<close> is never evaluated, and
  only the loop that follows validates, the struct of each resource on its own. That
  loop has no case for a package.
\<close>

definition validate_config :: "config \<Rightarrow> error option" where
  "validate_config cfg = None"


definition oneof :: "string list \<Rightarrow> string \<Rightarrow> bool" where
  "oneof allowed v = (v \<in> set allowed)"

text \<open>
  What the tag on \<open>resource.Type\<close> would check if it were reached; \<open>configFromBytes\<close>
  never calls it.
\<close>

definition Type_tag :: "resource \<Rightarrow> error option" where
  "Type_tag res =
     (if Type res = [] then Some (Errorf ''Type failed on the required tag'')
      else if oneof [''file'', ''directory'', ''service''] (Type res) then None
      else Some (Errorf ''Type failed on the oneof tag''))"

definition validate_file :: "fileResource \<Rightarrow> error option" where
  "validate_file f =
     (if File_Path f = [] then Some (Errorf ''Path failed on the required tag'')
      else
        (case File_State f of
           None \<Rightarrow> None
         | Some st \<Rightarrow>
             if oneof [''present'', ''absent''] st then None
             else Some (Errorf ''State failed on the oneof tag'')))"

definition validate_directory :: "directoryResource \<Rightarrow> error option" where
  "validate_directory d =
     (if Dir_Path d = [] then Some (Errorf ''Path failed on the required tag'') else None)"

definition validate_service :: "serviceResource \<Rightarrow> error option" where
  "validate_service s =
     (if Svc_Name s = [] then Some (Errorf ''Name failed on the required tag'')
      else if Svc_State s = [] then Some (Errorf ''State failed on the required tag'')
      else if oneof [''running'', ''stopped''] (Svc_State s) then None
      else Some (Errorf ''State failed on the oneof tag''))"

text \<open>
  \<open>validate.Struct\<close> on a pointer to a struct; on a nil pointer it returns an
  \<open>InvalidValidationError\<close>.
\<close>

definition validate_ptr :: "('a \<Rightarrow> error option) \<Rightarrow> 'a option \<Rightarrow> error option" where
  "validate_ptr check p = (case p of None \<Rightarrow> Some (Errorf ''validator: (nil)'') | Some v \<Rightarrow> check v)"

definition validate_resource :: "resource \<Rightarrow> error option" where
  "validate_resource res =
     (if Type res = ''file'' then validate_ptr validate_file (File res)
      else if Type res = ''directory'' then validate_ptr validate_directory (Directory res)
      else if Type res = ''service'' then validate_ptr validate_service (Service res)
      else None)"

fun validate_resources :: "nat \<Rightarrow> resource list \<Rightarrow> error option" where
  "validate_resources i [] = None"
| "validate_resources i (res # rest) =
     (case validate_resource res of
        Some err \<Rightarrow> Some (Wrapf ''resource validation failed'' err)
      | None \<Rightarrow> validate_resources (Suc i) rest)"

definition configFromBytes :: "(string \<Rightarrow> error + jvalue) \<Rightarrow> string \<Rightarrow> error + config" where
  "configFromBytes yaml input =
     (case yaml input of
        Inl e \<Rightarrow> Inl e
      | Inr v \<Rightarrow>
          (case unmarshal_config v of
             Inl e \<Rightarrow> Inl e
           | Inr cfg \<Rightarrow>
               (case validate_config cfg of
                  Some e \<Rightarrow> Inl e
                | None \<Rightarrow>
                    (case validate_resources 0 (Resources cfg) of
                       Some e \<Rightarrow> Inl e
                     | None \<Rightarrow> Inr cfg))))"

definition configFromFile :: "(string \<Rightarrow> error + jvalue) \<Rightarrow> string \<Rightarrow> world \<Rightarrow> error + config" where
  "configFromFile yaml filename w =
     (case os_ReadFile filename w of
        Inl e \<Rightarrow> Inl e
      | Inr input \<Rightarrow> configFromBytes yaml input)"

section \<open>The run (config.go)\<close>

text \<open>
  A runner is the method \<open>Run\<close> of a resource. The resources of a configuration have no
  manager set, so a package runs with \<open>aptPackageManager\<close> and a service with
  \<open>systemdServiceManager\<close>. A resource whose pointer is nil panics when it is run.
\<close>

type_synonym 'w runner = "'w \<Rightarrow> (error + string) \<times> 'w"

definition ptr_runner :: "('a \<Rightarrow> world runner) \<Rightarrow> 'a option \<Rightarrow> world runner" where
  "ptr_runner run p =
     (case p of
        None \<Rightarrow> (\<lambda>w. (Inl (Panic ''nil pointer dereference''), w))
      | Some v \<Rightarrow> run v)"

definition toRunner :: "resource \<Rightarrow> error + world runner" where
  "toRunner r =
     (if Type r = ''file'' then Inr (ptr_runner fileResource_Run (File r))
      else if Type r = ''directory'' then Inr (ptr_runner directoryResource_Run (Directory r))
      else if Type r = ''service'' then Inr (ptr_runner (serviceResource_Run systemdServiceManager) (Service r))
      else if Type r = ''package'' then Inr (ptr_runner (packageResource_Run aptPackageManager) (Package r))
      else Inl (Errorf (''unknown resource type: '' @ Type r)))"

fun getRunners_loop :: "resource list \<Rightarrow> world runner list \<Rightarrow> error + world runner list" where
  "getRunners_loop [] out = Inr out"
| "getRunners_loop (r # rs) out =
     (case toRunner r of
        Inl err \<Rightarrow> Inl err
      | Inr run \<Rightarrow> getRunners_loop rs (out @ [run]))"

definition getRunners :: "config \<Rightarrow> error + world runner list" where
  "getRunners cfg = getRunners_loop (Resources cfg) []"

text \<open>\<open>runRunners\<close>: the loop with its list \<open>out\<close> of services to notify.\<close>

fun runRunners_loop :: "'w runner list \<Rightarrow> string list \<Rightarrow> 'w \<Rightarrow> (error + string list) \<times> 'w" where
  "runRunners_loop [] out w = (Inr out, w)"
| "runRunners_loop (r # rs) out w =
     (case r w of
        (Inl err, w') \<Rightarrow> (Inl err, w')
      | (Inr service, w') \<Rightarrow>
          runRunners_loop rs
            (if service \<noteq> [] then (if service \<notin> set out then out @ [service] else out) else out) w')"

definition runRunners :: "'w runner list \<Rightarrow> 'w \<Rightarrow> (error + string list) \<times> 'w" where
  "runRunners runners w = runRunners_loop runners [] w"

definition run :: "(string \<Rightarrow> error + jvalue) \<Rightarrow> string \<Rightarrow> world \<Rightarrow> error option \<times> world" where
  "run yaml filename w =
     (case configFromFile yaml filename w of
        Inl err \<Rightarrow> (Some err, w)
      | Inr cfg \<Rightarrow>
          (case getRunners cfg of
             Inl err \<Rightarrow> (Some err, w)
           | Inr runners \<Rightarrow>
               (case runRunners runners w of
                  (Inl err, w') \<Rightarrow> (Some err, w')
                | (Inr services, w') \<Rightarrow> notifyServices systemd_Restart services w')))"


section \<open>The managers of the tests\<close>

text \<open>
  \<open>mockPackageManager\<close> (package_test.go) and \<open>mockServiceManager\<close> (service_test.go):
  a table of what is installed or running, an error to return from each method when it
  is set, and the record of the calls. A name that is not in the table reads as false.
\<close>

record mockPackageManager =
  mock_packages :: "string \<Rightarrow> bool"
  isInstalledErr :: "error option"
  installErr :: "error option"
  uninstallErr :: "error option"
  installCalled :: "string list"
  uninstallCalled :: "string list"
  isInstalledCalls :: "string list"

definition mock_IsInstalled :: "string \<Rightarrow> mockPackageManager \<Rightarrow> (error + bool) \<times> mockPackageManager" where
  "mock_IsInstalled packageName m =
     ((case isInstalledErr m of Some e \<Rightarrow> Inl e | None \<Rightarrow> Inr (mock_packages m packageName)),
      m\<lparr>isInstalledCalls := isInstalledCalls m @ [packageName]\<rparr>)"

definition mock_Install :: "string \<Rightarrow> mockPackageManager \<Rightarrow> error option \<times> mockPackageManager" where
  "mock_Install packageName m =
     (case installErr m of
        Some e \<Rightarrow> (Some e, m\<lparr>installCalled := installCalled m @ [packageName]\<rparr>)
      | None \<Rightarrow>
          (None, m\<lparr>installCalled := installCalled m @ [packageName],
                    mock_packages := (mock_packages m)(packageName := True)\<rparr>))"

definition mock_Uninstall :: "string \<Rightarrow> mockPackageManager \<Rightarrow> error option \<times> mockPackageManager" where
  "mock_Uninstall packageName m =
     (case uninstallErr m of
        Some e \<Rightarrow> (Some e, m\<lparr>uninstallCalled := uninstallCalled m @ [packageName]\<rparr>)
      | None \<Rightarrow>
          (None, m\<lparr>uninstallCalled := uninstallCalled m @ [packageName],
                    mock_packages := (mock_packages m)(packageName := False)\<rparr>))"

definition mockPackages :: "mockPackageManager packageManager" where
  "mockPackages = \<lparr>IsInstalled = mock_IsInstalled, Install = mock_Install, Uninstall = mock_Uninstall\<rparr>"

record mockServiceManager =
  mock_services :: "string \<Rightarrow> bool"
  isRunningErr :: "error option"
  startErr :: "error option"
  stopErr :: "error option"
  startCalled :: "string list"
  stopCalled :: "string list"
  isRunningCalls :: "string list"

definition mock_IsRunning :: "string \<Rightarrow> mockServiceManager \<Rightarrow> (error + bool) \<times> mockServiceManager" where
  "mock_IsRunning service m =
     ((case isRunningErr m of Some e \<Rightarrow> Inl e | None \<Rightarrow> Inr (mock_services m service)),
      m\<lparr>isRunningCalls := isRunningCalls m @ [service]\<rparr>)"

definition mock_Start :: "string \<Rightarrow> mockServiceManager \<Rightarrow> error option \<times> mockServiceManager" where
  "mock_Start service m =
     (case startErr m of
        Some e \<Rightarrow> (Some e, m\<lparr>startCalled := startCalled m @ [service]\<rparr>)
      | None \<Rightarrow>
          (None, m\<lparr>startCalled := startCalled m @ [service],
                    mock_services := (mock_services m)(service := True)\<rparr>))"

definition mock_Stop :: "string \<Rightarrow> mockServiceManager \<Rightarrow> error option \<times> mockServiceManager" where
  "mock_Stop service m =
     (case stopErr m of
        Some e \<Rightarrow> (Some e, m\<lparr>stopCalled := stopCalled m @ [service]\<rparr>)
      | None \<Rightarrow>
          (None, m\<lparr>stopCalled := stopCalled m @ [service],
                    mock_services := (mock_services m)(service := False)\<rparr>))"

definition mockServices :: "mockServiceManager serviceManager" where
  "mockServices = \<lparr>IsRunning = mock_IsRunning, Start = mock_Start, Stop = mock_Stop\<rparr>"

section \<open>Observing the orchestration\<close>

text \<open>
  \<open>notifying_log notifier\<close> is the notifier that also appends the name it is asked to
  restart to a log kept beside the state: the log of a run of \<open>notifyServices\<close> is the
  sequence of its calls of \<open>Restart\<close>.
\<close>

definition notifying_log :: "(string \<Rightarrow> 'w \<Rightarrow> error option \<times> 'w) \<Rightarrow> string \<Rightarrow> (string list \<times> 'w) \<Rightarrow> error option \<times> (string list \<times> 'w)" where
  "notifying_log notifier service = (\<lambda>(l, w). case notifier service w of (e, w') \<Rightarrow> (e, (l @ [service], w')))"

text \<open>\<open>mockServiceNotifier\<close> of the tests of \<open>notifyServices\<close>.\<close>

record mockServiceNotifier =
  restartCalled :: "string list"
  restartErr :: "error option"

definition mock_Restart :: "string \<Rightarrow> mockServiceNotifier \<Rightarrow> error option \<times> mockServiceNotifier" where
  "mock_Restart service m = (restartErr m, m\<lparr>restartCalled := restartCalled m @ [service]\<rparr>)"

text \<open>
  The restart list in the words of the specification: of the names returned, each kept
  where it first occurs and dropped wherever it occurs again. \<open>returned runners w\<close> lists
  what each runner returns when all of them run in order from \<open>w\<close>.
\<close>

fun first_occurrences :: "string list \<Rightarrow> string list" where
  "first_occurrences [] = []"
| "first_occurrences (x # xs) = x # first_occurrences (filter (\<lambda>y. y \<noteq> x) xs)"

definition returned :: "'w runner list \<Rightarrow> 'w \<Rightarrow> (error + string) list" where
  "returned runners w = map (step_result runners w) [0..<length runners]"

definition service_of :: "error + string \<Rightarrow> string" where
  "service_of r = (case r of Inl e \<Rightarrow> [] | Inr s \<Rightarrow> s)"

definition succeeded :: "error + string \<Rightarrow> bool" where
  "succeeded r = (case r of Inl e \<Rightarrow> False | Inr s \<Rightarrow> True)"

section \<open>Well-formed documents\<close>











section \<open>Example inputs\<close>

text \<open>Three steps on a counter: the second one fails.\<close>

definition three_steps :: "nat task list" where
  "three_steps =
     [\<lambda>s. ((True, None), s + 1),
      \<lambda>s. ((False, Some (Errorf ''boom'')), s + 10),
      \<lambda>s. ((True, None), s + 100)]"

text \<open>
  A host with the directories \<open>/\<close> and \<open>/etc\<close> (mode 0755, owned by root), the usual
  umask 022, the users and groups \<open>root\<close> and \<open>www-data\<close>, and external tools that
  always exit with status 0 and print nothing.
\<close>

definition dir_0755 :: inode where
  "dir_0755 = \<lparr>st_mode = 16877, st_uid = 0, st_gid = 0, data = []\<rparr>"

definition ids :: "string \<Rightarrow> lookup" where
  "ids name = (if name = ''root'' then Found 0 else if name = ''www-data'' then Found 33 else NotFound)"

definition host :: world where
  "host = \<lparr>fs = [([], dir_0755), ([''etc''], dir_0755)],
           umask = 18, euid = 0, egid = 0,
           users = ids, groups = ids,
           rand = (\<lambda>n. replicate (Suc n) (CHR ''x'')), rand_next = 0,
           system = (\<lambda>log cmd. Exited 0 []), cmdlog = []\<rparr>"

text \<open>Three files to create; the first and the third notify the same service.\<close>

definition conf_file :: "string \<Rightarrow> string \<Rightarrow> fileResource" where
  "conf_file path notify =
     \<lparr>File_Path = path, File_Contents = Some ''hi'', File_Owner = None, File_Group = None,
      File_Mode = None, File_State = None, File_Notify = notify\<rparr>"

definition three_files :: "world runner list" where
  "three_files =
     [fileResource_Run (conf_file ''/etc/a'' ''nginx''),
      fileResource_Run (conf_file ''/etc/b'' ''redis''),
      fileResource_Run (conf_file ''/etc/c'' ''nginx'')]"

text \<open>
  A configuration of three resources whose second one is a directory declared over the
  regular file \<open>/etc/motd\<close>: the text of \<open>/etc/tinyconf.yaml\<close>, the JSON value it reads
  as, the configuration it decodes to, and its runners.
\<close>

definition motd_yaml :: string where
  "motd_yaml = ''resources: [{type: file, path: /etc/a, contents: hi, notify: {service: nginx}}, {type: directory, path: /etc/motd}, {type: file, path: /etc/c, contents: hi, notify: {service: nginx}}]''"

definition motd_doc :: jvalue where
  "motd_doc =
     JObject [(''resources'', JArray
       [JObject [(''type'', JString ''file''), (''path'', JString ''/etc/a''),
                 (''contents'', JString ''hi''), (''notify'', JObject [(''service'', JString ''nginx'')])],
        JObject [(''type'', JString ''directory''), (''path'', JString ''/etc/motd'')],
        JObject [(''type'', JString ''file''), (''path'', JString ''/etc/c''),
                 (''contents'', JString ''hi''), (''notify'', JObject [(''service'', JString ''nginx'')])]])]"

definition motd_reader :: "string \<Rightarrow> error + jvalue" where
  "motd_reader input = (if input = motd_yaml then Inr motd_doc else Inl (Errorf ''yaml: not the example''))"

definition motd_dir :: directoryResource where
  "motd_dir = \<lparr>Dir_Path = ''/etc/motd'', Dir_Owner = None, Dir_Group = None, Dir_Mode = None,
               Dir_Recursive = False, Dir_Notify = []\<rparr>"

definition motd_config :: config where
  "motd_config =
     \<lparr>Resources =
        [(empty_resource ''file'')\<lparr>File := Some (conf_file ''/etc/a'' ''nginx'')\<rparr>,
         (empty_resource ''directory'')\<lparr>Directory := Some motd_dir\<rparr>,
         (empty_resource ''file'')\<lparr>File := Some (conf_file ''/etc/c'' ''nginx'')\<rparr>]\<rparr>"

definition motd_runners :: "world runner list" where
  "motd_runners =
     [fileResource_Run (conf_file ''/etc/a'' ''nginx''),
      directoryResource_Run motd_dir,
      fileResource_Run (conf_file ''/etc/c'' ''nginx'')]"

definition file_0644 :: "string \<Rightarrow> inode" where
  "file_0644 d = \<lparr>st_mode = 33188, st_uid = 0, st_gid = 0, data = d\<rparr>"

definition motd_host :: world where
  "motd_host =
     host\<lparr>fs := [([], dir_0755), ([''etc''], dir_0755),
                 ([''etc'', ''motd''], file_0644 ''welcome''),
                 ([''etc'', ''tinyconf.yaml''], file_0644 motd_yaml)]\<rparr>"


text \<open>
  A host on which \<open>systemctl start nginx\<close> fails with a message that does not mention
  masking, every time it is run.
\<close>

definition unit_not_found :: string where
  "unit_not_found = ''Failed to start nginx.service: Unit nginx.service not found.''"

definition no_unit_host :: world where
  "no_unit_host =
     host\<lparr>system := (\<lambda>log cmd. if cmd = [''systemctl'', ''start'', ''nginx'']
                                 then Exited 5 unit_not_found else Exited 0 [])\<rparr>"




text \<open>
  A file declared in full, group-writable and world-writable (mode 0666), and a
  directory declared with mode 0777.
\<close>

definition shared_file :: fileResource where
  "shared_file =
     \<lparr>File_Path = ''/etc/a'', File_Contents = Some ''hi'', File_Owner = Some ''root'',
      File_Group = Some ''root'', File_Mode = Some 438, File_State = Some ''present'',
      File_Notify = ''nginx''\<rparr>"

definition shared_dir :: directoryResource where
  "shared_dir =
     \<lparr>Dir_Path = ''/etc/d'', Dir_Owner = Some ''root'', Dir_Group = Some ''root'',
      Dir_Mode = Some 511, Dir_Recursive = False, Dir_Notify = ''nginx''\<rparr>"

section \<open>The task executor\<close>

lemma step_result_0: "step_result (t # ts) s 0 = fst (t s)"
  by (simp add: step_result_def)

lemma step_result_Suc: "step_result (t # ts) s (Suc i) = step_result ts (snd (t s)) i"
  by (simp add: step_result_def)

lemma runTasks_loop_instrumented:
  "runTasks_loop (instrument_from n tasks) c0 (l0, s) = ((changed, err), (l, s')) \<Longrightarrow>
   \<exists>k\<le>length tasks. l = l0 @ [n..<n + k] \<and> s' = exec_seq (take k tasks) s
     \<and> changed = (c0 \<or> (\<exists>i<k. fst (step_result tasks s i)))
     \<and> (\<forall>i<k. snd (step_result tasks s i) \<noteq> None \<longrightarrow> Suc i = k)
     \<and> (case err of None \<Rightarrow> k = length tasks \<and> (\<forall>i<k. snd (step_result tasks s i) = None)
         | Some e \<Rightarrow> 0 < k \<and> snd (step_result tasks s (k - 1)) = Some e)"
proof (induction tasks arbitrary: n c0 l0 s)
  case Nil
  then show ?case by auto
next
  case (Cons t ts)
  obtain c e s1 where ts1: "t s = ((c, e), s1)" by (metis prod.exhaust)
  show ?case
  proof (cases e)
    case (Some x)
    with Cons.prems ts1 have "l = l0 @ [n]" "s' = s1" "changed = (c \<or> c0)" "err = Some x"
      by (auto simp: logged_def Let_def split: if_splits)
    then show ?thesis using ts1 Some
      by (intro exI[of _ 1]) (auto simp: step_result_0)
  next
    case None
    with Cons.prems ts1 have
      "runTasks_loop (instrument_from (Suc n) ts) (if c then c else c0) (l0 @ [n], s1) = ((changed, err), (l, s'))"
      by (auto simp: logged_def Let_def)
    from Cons.IH[OF this] obtain k where k: "k \<le> length ts" "l = (l0 @ [n]) @ [Suc n..<Suc n + k]"
      "s' = exec_seq (take k ts) s1"
      "changed = ((if c then c else c0) \<or> (\<exists>i<k. fst (step_result ts s1 i)))"
      "\<forall>i<k. snd (step_result ts s1 i) \<noteq> None \<longrightarrow> Suc i = k"
      "(case err of None \<Rightarrow> k = length ts \<and> (\<forall>i<k. snd (step_result ts s1 i) = None)
         | Some e \<Rightarrow> 0 < k \<and> snd (step_result ts s1 (k - 1)) = Some e)" by blast
    have sr0: "step_result (t # ts) s 0 = (c, e)" using ts1 by (simp add: step_result_0)
    have srS: "\<And>j. step_result (t # ts) s (Suc j) = step_result ts s1 j"
      using ts1 by (simp add: step_result_Suc)
    show ?thesis
    proof (intro exI[of _ "Suc k"] conjI)
      show "Suc k \<le> length (t # ts)" using k by simp
      show "l = l0 @ [n..<n + Suc k]" using k(2) by (simp add: upt_conv_Cons)
      show "s' = exec_seq (take (Suc k) (t # ts)) s" using k(3) ts1 by simp
      show "changed = (c0 \<or> (\<exists>i<Suc k. fst (step_result (t # ts) s i)))"
        using k(4) by (simp add: Ex_less_Suc2 sr0 srS)
      show "\<forall>i<Suc k. snd (step_result (t # ts) s i) \<noteq> None \<longrightarrow> Suc i = Suc k"
        using k(5) None by (simp add: All_less_Suc2 sr0 srS)
      show "case err of None \<Rightarrow> Suc k = length (t # ts) \<and> (\<forall>i<Suc k. snd (step_result (t # ts) s i) = None)
         | Some e \<Rightarrow> 0 < Suc k \<and> snd (step_result (t # ts) s (Suc k - 1)) = Some e"
        using k(6) None by (cases err) (simp_all add: All_less_Suc2 sr0 srS, cases k, simp_all add: sr0 srS)
    qed
  qed
qed

text \<open>
  C2. \<open>runTasks\<close> on any list of steps, observed through the log of the positions
  executed. With \<open>k\<close> the number of steps executed: the log is \<open>0, 1, ..., k - 1\<close>, so the
  steps ran in order, each once, and none after the last; the state is the one those
  \<open>k\<close> steps leave; \<open>changed\<close> is the disjunction of the flags of those \<open>k\<close> steps; only
  the last executed step can have returned an error; with no error every step ran, and
  with an error it is the error of the last executed step, the flag of that step
  included in \<open>changed\<close>.
\<close>

theorem runTasks_contract:
  assumes "runTasks (instrument tasks) ([], s) = ((changed, err), (l, s'))"
  shows "\<exists>k\<le>length tasks.
           l = [0..<k] \<and> s' = exec_seq (take k tasks) s
         \<and> changed = (\<exists>i<k. fst (step_result tasks s i))
         \<and> (\<forall>i<k. snd (step_result tasks s i) \<noteq> None \<longrightarrow> Suc i = k)
         \<and> (case err of
               None \<Rightarrow> k = length tasks \<and> (\<forall>i<k. snd (step_result tasks s i) = None)
             | Some e \<Rightarrow> 0 < k \<and> snd (step_result tasks s (k - 1)) = Some e)"
  using runTasks_loop_instrumented[of 0 tasks False "[]" s changed err l s'] assms
  by (simp add: runTasks_def instrument_def)

theorem runTasks_contract_witness:
  "runTasks (instrument three_steps) ([], 0) = ((True, Some (Errorf ''boom'')), ([0, 1], 11))
   \<and> (\<exists>k\<le>length three_steps. [0, 1] = [0..<k] \<and> 11 = exec_seq (take k three_steps) 0
        \<and> snd (step_result three_steps 0 (k - 1)) = Some (Errorf ''boom''))"
proof -
  have run: "runTasks (instrument three_steps) ([], 0) = ((True, Some (Errorf ''boom'')), ([0, 1], 11))"
    by (simp add: runTasks_def instrument_def three_steps_def logged_def)
  from runTasks_contract[OF run] show ?thesis using run by auto
qed

section \<open>The restart protocol\<close>

lemma notifying_log_apply:
  "notifying_log notifier service (l, w) = (case notifier service w of (e, w') \<Rightarrow> (e, (l @ [service], w')))"
  by (simp add: notifying_log_def)

lemma notifyServices_logged:
  "notifyServices (notifying_log notifier) services (l0, w) = (err, (l, w')) \<Longrightarrow>
   \<exists>k\<le>length services.
       l = l0 @ take k services
     \<and> w' = exec_seq (map notifier (take k services)) w
     \<and> (\<forall>i<k. step_result (map notifier services) w i \<noteq> None \<longrightarrow> Suc i = k)
     \<and> (case err of
           None \<Rightarrow> k = length services
         | Some e \<Rightarrow> 0 < k \<and> step_result (map notifier services) w (k - 1) = Some e)"
proof (induction services arbitrary: l0 w)
  case Nil
  then show ?case by auto
next
  case (Cons x xs)
  obtain e w1 where nx: "notifier x w = (e, w1)" by (metis prod.exhaust)
  have sr0: "step_result (notifier x # map notifier xs) w 0 = e" using nx by (simp add: step_result_0)
  have srS: "\<And>j. step_result (notifier x # map notifier xs) w (Suc j) = step_result (map notifier xs) w1 j"
    using nx by (simp add: step_result_Suc)
  show ?case
  proof (cases e)
    case (Some y)
    with Cons.prems nx have "l = l0 @ [x]" "w' = w1" "err = Some y"
      by (auto simp: notifying_log_apply)
    then show ?thesis using nx Some
      by (intro exI[of _ 1]) (auto simp: sr0)
  next
    case None
    with Cons.prems nx have
      "notifyServices (notifying_log notifier) xs (l0 @ [x], w1) = (err, (l, w'))"
      by (auto simp: notifying_log_apply)
    from Cons.IH[OF this] obtain k where k: "k \<le> length xs" "l = (l0 @ [x]) @ take k xs"
      "w' = exec_seq (map notifier (take k xs)) w1"
      "\<forall>i<k. step_result (map notifier xs) w1 i \<noteq> None \<longrightarrow> Suc i = k"
      "(case err of None \<Rightarrow> k = length xs
         | Some e \<Rightarrow> 0 < k \<and> step_result (map notifier xs) w1 (k - 1) = Some e)" by blast
    show ?thesis
    proof (intro exI[of _ "Suc k"] conjI)
      show "Suc k \<le> length (x # xs)" using k by simp
      show "l = l0 @ take (Suc k) (x # xs)" using k(2) by simp
      show "w' = exec_seq (map notifier (take (Suc k) (x # xs))) w" using k(3) nx by simp
      show "\<forall>i<Suc k. step_result (map notifier (x # xs)) w i \<noteq> None \<longrightarrow> Suc i = Suc k"
        using k(4) None by (simp add: All_less_Suc2 sr0 srS)
      show "case err of None \<Rightarrow> Suc k = length (x # xs)
         | Some e \<Rightarrow> 0 < Suc k \<and> step_result (map notifier (x # xs)) w (Suc k - 1) = Some e"
        using k(5) None by (cases err) (simp_all add: sr0 srS, cases k, simp_all add: sr0 srS)
    qed
  qed
qed

text \<open>
  C5. \<open>notifyServices\<close> with any notifier, observed through the log of the names passed
  to \<open>Restart\<close>. With \<open>k\<close> the number of calls made: the log is the first \<open>k\<close> entries of
  the list as they stand, duplicates included, so \<open>Restart\<close> is called once per entry and
  in list order; only the last call can have failed; with no error every entry was
  restarted, and with an error it is the error of the last call and the entries after
  it were never passed to \<open>Restart\<close>.
\<close>

theorem notifyServices_protocol:
  assumes "notifyServices (notifying_log notifier) services ([], w) = (err, (l, w'))"
  shows "\<exists>k\<le>length services.
       l = take k services
     \<and> w' = exec_seq (map notifier (take k services)) w
     \<and> (\<forall>i<k. step_result (map notifier services) w i \<noteq> None \<longrightarrow> Suc i = k)
     \<and> (case err of
           None \<Rightarrow> k = length services
         | Some e \<Rightarrow> 0 < k \<and> step_result (map notifier services) w (k - 1) = Some e)"
  using notifyServices_logged[OF assms] by simp

theorem notifyServices_protocol_witness:
  "notifyServices (notifying_log mock_Restart) [''nginx'', ''nginx'', ''redis'']
       ([], \<lparr>restartCalled = [], restartErr = None\<rparr>)
     = (None, ([''nginx'', ''nginx'', ''redis''],
               \<lparr>restartCalled = [''nginx'', ''nginx'', ''redis''], restartErr = None\<rparr>))
   \<and> (\<exists>k\<le>3. [''nginx'', ''nginx'', ''redis''] = take k [''nginx'', ''nginx'', ''redis''] \<and> k = 3)"
proof -
  have run: "notifyServices (notifying_log mock_Restart) [''nginx'', ''nginx'', ''redis'']
       ([], \<lparr>restartCalled = [], restartErr = None\<rparr>)
     = (None, ([''nginx'', ''nginx'', ''redis''],
               \<lparr>restartCalled = [''nginx'', ''nginx'', ''redis''], restartErr = None\<rparr>))"
    by (simp add: notifying_log_apply mock_Restart_def)
  from notifyServices_protocol[OF run] show ?thesis using run by auto
qed

section \<open>Aggregation of the notify targets\<close>

lemma set_first_occurrences: "set (first_occurrences xs) = set xs"
proof (induction xs rule: first_occurrences.induct)
  case 1
  show ?case by simp
next
  case (2 x xs)
  then show ?case by auto
qed

lemma distinct_first_occurrences: "distinct (first_occurrences xs)"
proof (induction xs rule: first_occurrences.induct)
  case 1
  show ?case by simp
next
  case (2 x xs)
  then show ?case by (simp add: set_first_occurrences)
qed

lemma returned_Cons:
  "returned (r # rs) w = fst (r w) # returned rs (snd (r w))"
proof -
  have "map (step_result (r # rs) w) [0..<Suc (length rs)]
        = step_result (r # rs) w 0 # map (step_result (r # rs) w \<circ> Suc) [0..<length rs]"
    by (simp add: upt_conv_Cons map_Suc_upt[symmetric] del: upt_Suc)
  then show ?thesis
    by (simp add: returned_def step_result_0 step_result_Suc comp_def)
qed

lemma returned_Nil: "returned [] w = []"
  by (simp add: returned_def)

lemma runRunners_loop_all_succeed:
  "list_all succeeded (returned runners w) \<Longrightarrow>
   runRunners_loop runners out w =
     (Inr (out @ first_occurrences
              (filter (\<lambda>s. s \<notin> set out) (filter (\<lambda>s. s \<noteq> []) (map service_of (returned runners w))))),
      exec_seq runners w)"
proof (induction runners arbitrary: out w)
  case Nil
  then show ?case by (simp add: returned_Nil)
next
  case (Cons r rs)
  obtain res w1 where rw: "r w = (res, w1)" by (metis prod.exhaust)
  from Cons.prems rw obtain service where res: "res = Inr service"
    by (cases res) (auto simp: returned_Cons succeeded_def)
  from Cons.prems rw have rest: "list_all succeeded (returned rs w1)"
    by (simp add: returned_Cons)
  have filt: "\<And>P x zs. filter (\<lambda>y. y \<noteq> x) (filter P zs) = filter (\<lambda>s. P s \<and> s \<noteq> x) zs"
    by (simp add: conj_commute)
  show ?case
    using Cons.IH[OF rest] rw res
    by (auto simp: returned_Cons service_of_def filt conj_commute conj_left_commute cong: conj_cong)
qed

text \<open>
  C4. When every runner succeeds, \<open>runRunners\<close> returns the non-empty names the runners
  returned (a runner returns its notify target when it changed something, and the empty
  string otherwise), each name once, at the place of its first occurrence; and every
  runner has run, in order.
\<close>

theorem runRunners_aggregates:
  assumes "list_all succeeded (returned runners w)"
  shows "runRunners runners w =
           (Inr (first_occurrences (filter (\<lambda>s. s \<noteq> []) (map service_of (returned runners w)))),
            exec_seq runners w)
       \<and> distinct (first_occurrences (filter (\<lambda>s. s \<noteq> []) (map service_of (returned runners w))))
       \<and> set (first_occurrences (filter (\<lambda>s. s \<noteq> []) (map service_of (returned runners w))))
           = set (map service_of (returned runners w)) - {[]}"
  using runRunners_loop_all_succeed[OF assms, of "[]"]
  by (auto simp: runRunners_def distinct_first_occurrences set_first_occurrences)

text \<open>The equations that evaluate the model on a concrete host.\<close>

lemmas mode_defs = Perm_def ModePerm_def ModeDir_def ModeSetuid_def ModeSetgid_def ModeSticky_def
  S_IFMT_def S_IFDIR_def S_IFREG_def S_ISUID_def S_ISGID_def S_ISVTX_def
  defaultFileMode_def defaultDirMode_def syscallMode_def fileModeOfStat_def

lemmas os_defs = split_path_def IsDir_def node_def lookup_err_def parent_ok_def has_children_def
  put_def stat_path_def os_Stat_def isNotExist_def new_inode_def os_WriteFile_def chown_path_def
  os_Chown_def chmod_path_def os_Chmod_def os_ReadFile_def remove_path_def os_Remove_def
  is_below_def move_tree_def moved_def rename_path_def mkdir_path_def os_Mkdir_def mkdir_checked_def
  os_MkdirAll_def temp_name_def file_WriteString_def Dir_def
  lookup_id_def getUserAndGroup_def

lemmas file_defs = run_plan_def runTasks_def returning_def skip_def copyPermissions_def
  file_create_task_def new_owner_task_def new_group_task_def file_remove_task_def
  owner_task_def group_task_def mode_task_def cleanup_def file_contents_task_def
  file_shouldExist_def fileResource_plan_def fileResource_Run_def
  dir_create_task_def directoryResource_plan_def directoryResource_Run_def

lemmas host_defs = host_def dir_0755_def ids_def

lemma three_files_returned:
  "returned three_files host = [Inr ''nginx'', Inr ''redis'', Inr ''nginx'']"
  by (simp add: three_files_def conf_file_def returned_Cons returned_Nil
        mode_defs os_defs file_defs host_defs)

theorem runRunners_aggregates_witness:
  "list_all succeeded (returned three_files host)
   \<and> fst (runRunners three_files host) = Inr [''nginx'', ''redis'']"
proof -
  have ok: "list_all succeeded (returned three_files host)"
    by (simp add: three_files_returned succeeded_def)
  from runRunners_aggregates[OF ok] show ?thesis
    using ok by (simp add: three_files_returned service_of_def)
qed

section \<open>The run stops at the first failing resource\<close>

lemma runRunners_loop_fails:
  "i < length runners \<Longrightarrow> \<forall>j<i. succeeded (step_result runners w j) \<Longrightarrow>
   step_result runners w i = Inl e \<Longrightarrow>
   runRunners_loop runners out w = (Inl e, exec_seq (take (Suc i) runners) w)"
proof (induction runners arbitrary: i out w)
  case Nil
  then show ?case by simp
next
  case (Cons r rs)
  obtain res w1 where rw: "r w = (res, w1)" by (metis prod.exhaust)
  show ?case
  proof (cases i)
    case 0
    with Cons.prems rw show ?thesis by (simp add: step_result_0)
  next
    case (Suc i')
    from Cons.prems(2) Suc have "succeeded (step_result (r # rs) w 0)" by blast
    with rw obtain service where res: "res = Inr service"
      by (cases res) (auto simp: step_result_0 succeeded_def)
    have a: "i' < length rs" using Cons.prems(1) Suc by simp
    have b: "\<forall>j<i'. succeeded (step_result rs w1 j)"
    proof (intro allI impI)
      fix j assume "j < i'"
      then have "Suc j < i" using Suc by simp
      with Cons.prems(2) have "succeeded (step_result (r # rs) w (Suc j))" by blast
      then show "succeeded (step_result rs w1 j)" using rw by (simp add: step_result_Suc)
    qed
    have c: "step_result rs w1 i' = Inl e"
      using Cons.prems(3) Suc rw by (simp add: step_result_Suc)
    show ?thesis
      using Cons.IH[OF a b c] rw res Suc by simp
  qed
qed

text \<open>
  C6. A run whose configuration is read and whose runners are built: when the runner
  at position \<open>i\<close> is the first to return an error, \<open>run\<close> returns that error, and the
  host is left as the runners \<open>0\<close> to \<open>i\<close>, run in order, leave it. No runner after \<open>i\<close>
  and no call of \<open>Restart\<close> has acted on it, whatever the earlier runners returned.
\<close>

theorem run_short_circuit:
  assumes "configFromFile yaml filename w = Inr cfg"
    and "getRunners cfg = Inr runners"
    and "i < length runners"
    and "\<forall>j<i. succeeded (step_result runners w j)"
    and "step_result runners w i = Inl e"
  shows "run yaml filename w = (Some e, exec_seq (take (Suc i) runners) w)"
  using assms(1,2) runRunners_loop_fails[OF assms(3,4,5), of "[]"]
  by (simp add: run_def runRunners_def)

lemmas config_defs = field_def type_error_def as_string_def as_string_ptr_def as_bool_def
  as_mode_ptr_def as_notify_def bind_def unmarshal_file_def unmarshal_directory_def
  unmarshal_service_def unmarshal_package_def empty_resource_def UnmarshalJSON_def
  unmarshal_config_def validate_config_def oneof_def validate_file_def validate_directory_def
  validate_service_def validate_ptr_def validate_resource_def configFromBytes_def
  configFromFile_def ptr_runner_def toRunner_def getRunners_def

lemma motd_config_read: "configFromFile motd_reader ''/etc/tinyconf.yaml'' motd_host = Inr motd_config"
  by (simp add: motd_host_def motd_reader_def motd_doc_def motd_config_def motd_dir_def conf_file_def
      file_0644_def config_defs os_defs mode_defs host_defs)

lemma motd_runners_built: "getRunners motd_config = Inr motd_runners"
  by (simp add: motd_config_def motd_runners_def config_defs)

lemma motd_first: "step_result motd_runners motd_host 0 = Inr ''nginx''"
  by (simp add: step_result_def motd_runners_def motd_host_def motd_dir_def conf_file_def
      file_0644_def os_defs mode_defs host_defs file_defs)

lemma motd_second: "step_result motd_runners motd_host 1 = Inl (Errorf ''/etc/motd is not a directory'')"
  by (simp add: step_result_def motd_runners_def motd_host_def motd_dir_def conf_file_def
      file_0644_def os_defs mode_defs host_defs file_defs)

lemma motd_state:
  "fs (exec_seq (take 2 motd_runners) motd_host) =
     [([], dir_0755), ([''etc''], dir_0755), ([''etc'', ''motd''], file_0644 ''welcome''),
      ([''etc'', ''tinyconf.yaml''], file_0644 motd_yaml), ([''etc'', ''a''], file_0644 ''hi'')]
   \<and> cmdlog (exec_seq (take 2 motd_runners) motd_host) = []"
  by (simp add: numeral_2_eq_2 motd_runners_def motd_host_def motd_dir_def conf_file_def
      file_0644_def os_defs mode_defs host_defs file_defs)

theorem run_short_circuit_witness:
  "fst (run motd_reader ''/etc/tinyconf.yaml'' motd_host) = Some (Errorf ''/etc/motd is not a directory'')
   \<and> node (snd (run motd_reader ''/etc/tinyconf.yaml'' motd_host)) [''etc'', ''a''] = Some (file_0644 ''hi'')
   \<and> node (snd (run motd_reader ''/etc/tinyconf.yaml'' motd_host)) [''etc'', ''c''] = None
   \<and> cmdlog (snd (run motd_reader ''/etc/tinyconf.yaml'' motd_host)) = []"
proof -
  have i: "(1::nat) < length motd_runners" by (simp add: motd_runners_def)
  have before: "\<forall>j<1. succeeded (step_result motd_runners motd_host j)"
    by (simp add: motd_first succeeded_def)
  have "run motd_reader ''/etc/tinyconf.yaml'' motd_host
        = (Some (Errorf ''/etc/motd is not a directory''), exec_seq (take (Suc 1) motd_runners) motd_host)"
    by (rule run_short_circuit[OF motd_config_read motd_runners_built i before motd_second])
  then show ?thesis
    using motd_state by (simp add: node_def numeral_2_eq_2)
qed

section \<open>The mode step\<close>

lemma Perm_fileModeOfStat: "fileModeOfStat m AND 511 = m AND 511"
proof -
  have flags: "ModeDir AND (511::32 word) = 0" "ModeSetgid AND (511::32 word) = 0"
    "ModeSetuid AND (511::32 word) = 0" "ModeSticky AND (511::32 word) = 0"
    by (simp_all add: ModeDir_def ModeSetgid_def ModeSetuid_def ModeSticky_def)
  show ?thesis
    by (simp add: fileModeOfStat_def bit.conj_disj_distrib2 flags)
qed

lemma node_put: "node (put p n w) q = (if q = p then Some n else node w q)"
  by (simp add: node_def put_def update_conv')

lemma file_plan_existing:
  assumes "getUserAndGroup (File_Owner f) (File_Group f) w = Inr (userID, groupID)"
    and "os_Stat (File_Path f) w = Inr fileInfo" and "\<not> IsDir fileInfo" and "file_shouldExist f"
  shows "fileResource_plan f w =
           Tasks [owner_task (File_Path f) fileInfo userID, group_task (File_Path f) fileInfo groupID,
                  mode_task (File_Path f) fileInfo (File_Mode f), file_contents_task f]"
  using assms by (simp add: fileResource_plan_def)

lemma directory_plan_existing:
  assumes "getUserAndGroup (Dir_Owner d) (Dir_Group d) w = Inr (userID, groupID)"
    and "os_Stat (Dir_Path d) w = Inr dirInfo" and "IsDir dirInfo"
  shows "directoryResource_plan d w =
           Tasks [owner_task (Dir_Path d) dirInfo userID, group_task (Dir_Path d) dirInfo groupID,
                  mode_task (Dir_Path d) dirInfo (Dir_Mode d)]"
  using assms by (simp add: directoryResource_plan_def)

text \<open>
  C10. The mode step of an existing file or directory, whose \<open>Stat\<close> is \<open>fileInfo\<close>
  (both \<open>fileResource_plan\<close> and \<open>directoryResource_plan\<close> use \<open>mode_task\<close>): with a desired
  mode \<open>m\<close>, the step compares the low nine bits of the two modes and nothing else. When
  they agree the step reports no change and leaves the host as it is, whatever the
  set-uid, set-gid and sticky bits of either side; when they differ it reports a change
  and calls \<open>os.Chmod\<close> with \<open>m\<close> itself, so that the twelve mode bits of the inode become
  \<open>syscallMode m\<close>, special bits included.
\<close>

theorem mode_task_compares_permission_bits:
  assumes "node w (split_path path) = Some n"
  shows "mode_task path fileInfo (Some m) w =
           (if st_mode fileInfo AND 511 = m AND 511 then ((False, None), w)
            else ((True, None),
                  put (split_path path) (n\<lparr>st_mode := (st_mode n AND S_IFMT) OR syscallMode m\<rparr>) w))"
  using assms
  by (simp add: mode_task_def Perm_fileModeOfStat Perm_def ModePerm_def skip_def returning_def
      os_Chmod_def chmod_path_def)

theorem mode_task_compares_permission_bits_witness:
  "mode_task ''/etc/motd'' (file_0644 ''welcome'') (Some (ModeSetuid OR 420)) motd_host
     = ((False, None), motd_host)
   \<and> fst (mode_task ''/etc/motd'' (file_0644 ''welcome'') (Some (ModeSetuid OR 448)) motd_host)
     = (True, None)
   \<and> node (snd (mode_task ''/etc/motd'' (file_0644 ''welcome'') (Some (ModeSetuid OR 448)) motd_host))
        [''etc'', ''motd'']
     = Some \<lparr>st_mode = 35264, st_uid = 0, st_gid = 0, data = ''welcome''\<rparr>"
proof -
  have n: "node motd_host (split_path ''/etc/motd'') = Some (file_0644 ''welcome'')"
    by (simp add: motd_host_def host_defs os_defs)
  show ?thesis
    using mode_task_compares_permission_bits[OF n, of "file_0644 ''welcome''" "ModeSetuid OR 420"]
      mode_task_compares_permission_bits[OF n, of "file_0644 ''welcome''" "ModeSetuid OR 448"]
    by (simp add: file_0644_def mode_defs node_put split_path_def)
qed

section \<open>A file declared absent\<close>

lemma node_delete: "node (w\<lparr>fs := AList.delete p (fs w)\<rparr>) q = (if q = p then None else node w q)"
  by (simp add: node_def delete_conv')




section \<open>The systemd service manager\<close>

lemmas cmd_defs = exec_def cmd_err_def cmd_output_def unmaskIfNeeded_def systemctl_retrying_def
  systemd_Start_def systemd_Restart_def systemd_Stop_def systemd_IsRunning_def

lemma systemctl_retries_without_mask:
  assumes "cmd_err (system w (cmdlog w) [''systemctl'', verb, service]) = Some err"
    and "\<not> Contains (cmd_output (system w (cmdlog w) [''systemctl'', verb, service])) ''masked''"
  shows "cmdlog (snd (systemctl_retrying verb service w))
           = cmdlog w @ [[''systemctl'', verb, service], [''systemctl'', verb, service]]"
  using assms
  by (simp add: systemctl_retrying_def unmaskIfNeeded_def exec_def split: option.splits)

text \<open>
  C8 on the code. \<open>systemctl start nginx\<close> fails and its output does not contain
  \<open>masked\<close>. \<open>Start\<close> issues no unmask command, and yet runs the start command a second
  time; the error it returns is that of the second run, worded as a failure after
  unmasking.
\<close>

theorem systemd_Start_retries_unmasked_failure:
  "\<not> Contains unit_not_found ''masked''
   \<and> systemd_Start ''nginx'' no_unit_host =
       (Some (Wrapf (''failed to start service nginx after unmasking: (output: '' @ unit_not_found @ '')'')
                (ExitError 5)),
        no_unit_host\<lparr>cmdlog := [[''systemctl'', ''start'', ''nginx''], [''systemctl'', ''start'', ''nginx'']]\<rparr>)"
  by (simp add: no_unit_host_def unit_not_found_def host_defs cmd_defs)

section \<open>Replacing the contents of a file\<close>

lemma node_rand_next [simp]: "node (w\<lparr>rand_next := r\<rparr>) q = node w q"
  by (simp add: node_def)

lemma new_inode_rand_next [simp]: "new_inode (w\<lparr>rand_next := r\<rparr>) t m d = new_inode w t m d"
  by (simp add: new_inode_def)

lemma parent_ok_rand_next [simp]: "parent_ok (w\<lparr>rand_next := r\<rparr>) q = parent_ok w q"
  by (simp add: parent_ok_def)

lemma CreateTemp_try_ok:
  "CreateTemp_try k dir w = (Inr t, w1) \<Longrightarrow>
   \<exists>r. node w t = None \<and> w1 = put t (new_inode w S_IFREG 384 []) (w\<lparr>rand_next := r\<rparr>)"
proof (induction k arbitrary: w)
  case 0
  then show ?case by simp
next
  case (Suc k)
  let ?w = "w\<lparr>rand_next := Suc (rand_next w)\<rparr>"
  let ?t = "dir @ [temp_name w]"
  show ?case
  proof (cases "node w ?t")
    case None
    with Suc.prems have "t = ?t" "w1 = put ?t (new_inode w S_IFREG 384 []) ?w"
      by (auto simp: Let_def split: if_splits)
    with None show ?thesis by blast
  next
    case (Some a)
    with Suc.prems have "CreateTemp_try k dir ?w = (Inr t, w1)"
      by (simp add: Let_def)
    from Suc.IH[OF this] show ?thesis by auto
  qed
qed

lemma syscallMode_type_bits: "syscallMode m AND S_IFMT = 0"
  by (simp add: syscallMode_def Perm_def ModePerm_def S_IFMT_def S_ISUID_def S_ISGID_def S_ISVTX_def
      bit.conj_disj_distrib2 and.assoc)

lemma syscallMode_perm_bits: "syscallMode m AND 511 = m AND 511"
  by (simp add: syscallMode_def Perm_def ModePerm_def S_ISUID_def S_ISGID_def S_ISVTX_def
      bit.conj_disj_distrib2 and.assoc)

lemma temp_type_bits: "(S_IFREG OR (x AND NOT u)) AND S_IFMT = S_IFREG" if "x AND S_IFMT = 0" for x u :: "32 word"
proof -
  have "(x AND NOT u) AND S_IFMT = (x AND S_IFMT) AND NOT u"
    by (simp add: ac_simps)
  then show ?thesis using that
    by (simp add: bit.conj_disj_distrib2 S_IFREG_def S_IFMT_def)
qed

lemma not_below_sibling: "\<not> is_below (butlast p @ [x]) p" if "butlast p @ [x] \<noteq> p"
proof (cases "p = []")
  case True
  then show ?thesis by (simp add: is_below_def)
next
  case False
  then have "length (butlast p @ [x]) = length p" by simp
  then show ?thesis using that by (simp add: is_below_def)
qed

lemma uint_not_minus_one: "uint (x::32 word) \<noteq> - 1"
  using uint_ge_0[of x] by linarith

lemma contents_update:
  fixes f :: fileResource and w :: world
  defines "p \<equiv> split_path (File_Path f)"
  assumes n: "node w p = Some n" and reg: "\<not> IsDir n"
    and want: "File_Contents f = Some desired" and differ: "data n \<noteq> desired"
    and ok: "file_contents_task f w = ((changed, None), w')"
  shows "changed \<and> (\<forall>q. node w' q =
           (if q = p
            then Some \<lparr>st_mode = S_IFREG OR syscallMode (st_mode n), st_uid = st_uid n,
                       st_gid = st_gid n, data = desired\<rparr>
            else node w q))"
proof -
  have rd: "os_ReadFile (File_Path f) w = Inr (data n)"
    using n reg by (simp add: os_ReadFile_def p_def Let_def)
  obtain r1 w1 where ct: "os_CreateTemp (Dir (File_Path f)) w = (r1, w1)" by (metis prod.exhaust)
  from ok want rd differ ct obtain t where t: "r1 = Inr t"
    by (cases r1) (auto simp: file_contents_task_def)
  from ct t have "CreateTemp_try 10000 (butlast p) w = (Inr t, w1)"
    by (simp add: os_CreateTemp_def Dir_def p_def)
  from CreateTemp_try_ok[OF this] obtain r where
    fresh: "node w t = None" and w1: "w1 = put t (new_inode w S_IFREG 384 []) (w\<lparr>rand_next := r\<rparr>)"
    by blast
  from ct t have tform: "\<exists>x. t = butlast p @ [x]"
  proof -
    have "\<And>k w0 t0 w10. CreateTemp_try k (butlast p) w0 = (Inr t0, w10) \<Longrightarrow> \<exists>x. t0 = butlast p @ [x]"
    proof -
      fix k w0 t0 w10
      show "CreateTemp_try k (butlast p) w0 = (Inr t0, w10) \<Longrightarrow> \<exists>x. t0 = butlast p @ [x]"
        by (induction k arbitrary: w0) (auto simp: Let_def split: option.splits if_splits)
    qed
    with ct t show ?thesis by (simp add: os_CreateTemp_def Dir_def p_def)
  qed
  have tp: "t \<noteq> p" using fresh n by auto
  let ?wr = "w\<lparr>rand_next := r\<rparr>"
  let ?tn = "new_inode w S_IFREG 384 []"
  let ?w2 = "put t (?tn\<lparr>data := desired\<rparr>) w1"
  have ws: "file_WriteString t desired w1 = (None, ?w2)"
    by (simp add: file_WriteString_def w1 node_put new_inode_def)
  have n2: "node ?w2 p = Some n" using tp n by (simp add: w1 node_put)
  let ?tn3 = "\<lparr>st_mode = S_IFREG OR syscallMode (st_mode n), st_uid = st_uid n,
               st_gid = st_gid n, data = desired\<rparr>"
  let ?w3 = "put t ?tn3 (put t (?tn\<lparr>data := desired, st_uid := st_uid n, st_gid := st_gid n\<rparr>) ?w2)"
  have m384: "syscallMode 384 AND S_IFMT = 0" by (rule syscallMode_type_bits)
  have cp: "copyPermissions (File_Path f) t ?w2 = (None, ?w3)"
    using n2
    by (simp add: copyPermissions_def os_Stat_def stat_path_def p_def[symmetric] chown_path_def
        chmod_path_def node_put uint_not_minus_one new_inode_def temp_type_bits[OF m384])
  have n3t: "node ?w3 t = Some ?tn3" by (simp add: node_put)
  have n3p: "node ?w3 p = Some n" using tp n by (simp add: w1 node_put)
  have tn3reg: "\<not> IsDir ?tn3"
    by (simp add: IsDir_def bit.conj_disj_distrib2 syscallMode_type_bits)
       (simp add: S_IFREG_def S_IFMT_def S_IFDIR_def)
  from tform tp have nb: "\<not> is_below t p" using not_below_sibling by blast
  let ?w4 = "?w3\<lparr>fs := AList.update p ?tn3 (AList.delete t (AList.delete p (fs ?w3)))\<rparr>"
  have rn: "rename_path t p ?w3 = (None, ?w4)"
    using n3t n3p tp nb reg tn3reg by (simp add: rename_path_def moved_def)
  have n4: "\<And>q. node ?w4 q = (if q = p then Some ?tn3 else if q = t then None else node w q)"
    using tp by (simp add: node_def put_def w1 update_conv' delete_conv')
  have gone: "node ?w4 t = None" using tp by (simp add: n4)
  have cl: "remove_path t ?w4 = (Some (lookup_err ?w4 t), ?w4)"
    using gone by (simp add: remove_path_def)
  have "file_contents_task f w = ((True, None), ?w4)"
    using want rd differ ct t ws cp rn cl
    by (simp add: file_contents_task_def cleanup_def p_def[symmetric])
  with ok have "changed" "w' = ?w4" by simp_all
  moreover have "\<And>q. node ?w4 q = (if q = p then Some ?tn3 else node w q)"
    using fresh by (simp add: n4)
  ultimately show ?thesis by simp
qed





section \<open>Decoding and validating a configuration\<close>










text \<open>
  The tag on \<open>resource.Type\<close> lists three of the four types. It would refuse a package,
  and it is not part of what \<open>configFromBytes\<close> checks.
\<close>

lemma Type_tag_refuses_package:
  "Type_tag ((empty_resource ''package'')\<lparr>Package := Some p\<rparr>) = Some (Errorf ''Type failed on the oneof tag'')"
  by (simp add: Type_tag_def empty_resource_def oneof_def)



section \<open>Running a reconciler twice\<close>

text \<open>
  C1 on the code. On a host with umask 022 the file \<open>/etc/a\<close> does not exist and is
  declared with mode 0666. The first \<open>Run\<close> succeeds and creates it, with mode 0644 as
  the umask has it. The second \<open>Run\<close>, on the host as the first left it, finds 0644
  where 0666 is declared, changes the mode and returns the notify target again: it
  reports a change and the host is not as it was. Only the third \<open>Run\<close> reports none.
\<close>

theorem second_run_changes_mode:
  "fst (fileResource_Run shared_file host) = Inr ''nginx''
   \<and> node (snd (fileResource_Run shared_file host)) [''etc'', ''a'']
       = Some \<lparr>st_mode = 33188, st_uid = 0, st_gid = 0, data = ''hi''\<rparr>
   \<and> fst (fileResource_Run shared_file (snd (fileResource_Run shared_file host))) = Inr ''nginx''
   \<and> node (snd (fileResource_Run shared_file (snd (fileResource_Run shared_file host)))) [''etc'', ''a'']
       = Some \<lparr>st_mode = 33206, st_uid = 0, st_gid = 0, data = ''hi''\<rparr>
   \<and> fst (fileResource_Run shared_file
             (snd (fileResource_Run shared_file (snd (fileResource_Run shared_file host))))) = Inr []"
  by (simp add: shared_file_def host_defs os_defs mode_defs file_defs)

lemma second_run_changes_directory_mode:
  "fst (directoryResource_Run shared_dir host) = Inr ''nginx''
   \<and> node (snd (directoryResource_Run shared_dir host)) [''etc'', ''d'']
       = Some \<lparr>st_mode = 16877, st_uid = 0, st_gid = 0, data = []\<rparr>
   \<and> fst (directoryResource_Run shared_dir (snd (directoryResource_Run shared_dir host))) = Inr ''nginx''
   \<and> node (snd (directoryResource_Run shared_dir (snd (directoryResource_Run shared_dir host)))) [''etc'', ''d'']
       = Some \<lparr>st_mode = 16895, st_uid = 0, st_gid = 0, data = []\<rparr>"
  by (simp add: shared_dir_def host_defs os_defs mode_defs file_defs)

section \<open>A second run of the file reconciler\<close>

lemma put_names [simp]: "users (put p n w) = users w" "groups (put p n w) = groups w"
  by (simp_all add: put_def)

lemma chown_path_names [simp]:
  "users (snd (chown_path p u g w)) = users w" "groups (snd (chown_path p u g w)) = groups w"
  by (simp_all add: chown_path_def split: option.splits)

lemma chmod_path_names [simp]:
  "users (snd (chmod_path p m w)) = users w" "groups (snd (chmod_path p m w)) = groups w"
  by (simp_all add: chmod_path_def split: option.splits)

lemma remove_path_names [simp]:
  "users (snd (remove_path p w)) = users w" "groups (snd (remove_path p w)) = groups w"
  by (simp_all add: remove_path_def split: option.splits)

lemma rename_path_names [simp]:
  "users (snd (rename_path a b w)) = users w" "groups (snd (rename_path a b w)) = groups w"
  by (simp_all add: rename_path_def split: option.splits)

lemma file_WriteString_names [simp]:
  "users (snd (file_WriteString t s w)) = users w" "groups (snd (file_WriteString t s w)) = groups w"
  by (simp_all add: file_WriteString_def split: option.splits)

lemma os_WriteFile_names [simp]:
  "users (snd (os_WriteFile p d m w)) = users w" "groups (snd (os_WriteFile p d m w)) = groups w"
  by (simp_all add: os_WriteFile_def Let_def split: option.splits)

lemma CreateTemp_try_names:
  "users (snd (CreateTemp_try k dir w)) = users w \<and> groups (snd (CreateTemp_try k dir w)) = groups w"
  by (induction k arbitrary: w) (auto simp: Let_def split: option.splits)

lemma os_CreateTemp_names [simp]:
  "users (snd (os_CreateTemp dir w)) = users w" "groups (snd (os_CreateTemp dir w)) = groups w"
  by (simp_all add: os_CreateTemp_def CreateTemp_try_names)

lemma copyPermissions_names [simp]:
  "users (snd (copyPermissions src dst w)) = users w" "groups (snd (copyPermissions src dst w)) = groups w"
proof -
  have "users (snd (copyPermissions src dst w)) = users w \<and> groups (snd (copyPermissions src dst w)) = groups w"
  proof (cases "os_Stat src w")
    case (Inl e)
    then show ?thesis by (simp add: copyPermissions_def)
  next
    case (Inr st)
    obtain e1 w1 where c1: "chown_path dst (uint (st_uid st)) (uint (st_gid st)) w = (e1, w1)"
      by (metis prod.exhaust)
    obtain e2 w2 where c2: "chmod_path dst (st_mode st) w1 = (e2, w2)" by (metis prod.exhaust)
    have a: "users w1 = users w" "groups w1 = groups w"
      using chown_path_names[of dst "uint (st_uid st)" "uint (st_gid st)" w] c1 by simp_all
    have b: "users w2 = users w1" "groups w2 = groups w1"
      using chmod_path_names[of dst "st_mode st" w1] c2 by simp_all
    show ?thesis using Inr c1 c2 a b
      by (cases e1; cases e2) (simp_all add: copyPermissions_def)
  qed
  then show "users (snd (copyPermissions src dst w)) = users w"
    "groups (snd (copyPermissions src dst w)) = groups w" by simp_all
qed

lemma getUserAndGroup_names:
  "users w' = users w \<Longrightarrow> groups w' = groups w \<Longrightarrow> getUserAndGroup a b w' = getUserAndGroup a b w"
  by (auto simp: getUserAndGroup_def split: sum.splits)

lemma and_not_disjoint: "x AND NOT u = x" if "x AND u = 0" for x u :: "32 word"
proof (rule bit_eqI)
  fix k
  assume "possible_bit TYPE(32 word) k"
  from that have "bit (x AND u) k = bit (0::32 word) k" by simp
  then have "\<not> (bit x k \<and> bit u k)"
    by (simp add: bit_and_iff)
  then show "bit (x AND NOT u) k = bit x k"
    by (auto simp: bit_and_iff bit_not_iff dest: bit_imp_possible_bit)
qed

lemma runTasks_single: "runTasks [t] w = t w"
  by (cases "t w") (auto simp: runTasks_def split: option.splits)

lemma settled_file_run:
  assumes ug: "getUserAndGroup (File_Owner f) (File_Group f) w = Inr (userID, groupID)"
    and n: "node w (split_path (File_Path f)) = Some n" and reg: "\<not> IsDir n"
    and se: "file_shouldExist f"
    and uid: "userID = - 1 \<or> st_uid n = word_of_int userID"
    and gid: "groupID = - 1 \<or> st_gid n = word_of_int groupID"
    and mode: "case File_Mode f of None \<Rightarrow> True | Some m \<Rightarrow> st_mode n AND 511 = m AND 511"
    and cont: "case File_Contents f of None \<Rightarrow> True | Some d \<Rightarrow> data n = d"
  shows "fileResource_Run f w = (Inr [], w)"
proof -
  have st: "os_Stat (File_Path f) w = Inr n" using n by (simp add: os_Stat_def stat_path_def)
  have o: "owner_task (File_Path f) n userID = skip" using uid by (auto simp: owner_task_def)
  have g: "group_task (File_Path f) n groupID = skip" using gid by (auto simp: group_task_def)
  have m: "mode_task (File_Path f) n (File_Mode f) = skip"
    using mode by (auto simp: mode_task_def Perm_def ModePerm_def Perm_fileModeOfStat split: option.splits)
  have c: "file_contents_task f w = ((False, None), w)"
    using cont n reg by (auto simp: file_contents_task_def os_ReadFile_def Let_def split: option.splits)
  show ?thesis
    using file_plan_existing[OF ug st reg se] o g m c
    by (simp add: fileResource_Run_def run_plan_def runTasks_def skip_def)
qed

lemma runTasks_loop_success:
  assumes "runTasks_loop (t # ts) c w = ((c', None), w')"
  obtains c1 wm where "t w = ((c1, None), wm)" and "runTasks_loop ts (c1 \<or> c) wm = ((c', None), w')"
proof -
  obtain c1 e wm where tw: "t w = ((c1, e), wm)" by (metis prod.exhaust)
  with assms have e: "e = None" by (cases e) (auto simp: Let_def)
  have "(if c1 then c1 else c) = (c1 \<or> c)" by simp
  with assms tw e have "runTasks_loop ts (c1 \<or> c) wm = ((c', None), w')" by (simp add: Let_def)
  with tw e that show ?thesis by blast
qed

lemma chown_task_effect:
  assumes n: "node w (split_path path) = Some n"
    and run: "(if i = - 1 \<or> have_it then skip else returning True (os_Chown path u g)) w = ((c, None), w')"
  shows "(i = - 1 \<or> have_it \<longrightarrow> w' = w)
       \<and> (\<not> (i = - 1 \<or> have_it) \<longrightarrow>
            w' = put (split_path path)
                   (n\<lparr>st_uid := (if u = - 1 then st_uid n else word_of_int u),
                      st_gid := (if g = - 1 then st_gid n else word_of_int g)\<rparr>) w)"
  using assms
  by (auto simp: skip_def returning_def os_Chown_def chown_path_def)

lemma mode_task_effect:
  assumes n: "node w (split_path path) = Some n" and fi: "st_mode fi = st_mode n"
    and run: "mode_task path fi mode w = ((c, None), w')"
  shows "\<exists>n'. node w' (split_path path) = Some n' \<and> st_uid n' = st_uid n \<and> st_gid n' = st_gid n
            \<and> data n' = data n \<and> IsDir n' = IsDir n
            \<and> (case mode of None \<Rightarrow> True | Some m \<Rightarrow> st_mode n' AND 511 = m AND 511)
            \<and> users w' = users w \<and> groups w' = groups w"
proof (cases mode)
  case None
  with run n show ?thesis by (simp add: mode_task_def skip_def)
next
  case (Some m)
  show ?thesis
  proof (cases "st_mode fi AND 511 = m AND 511")
    case True
    with run n Some fi show ?thesis
      by (simp add: mode_task_def skip_def Perm_def ModePerm_def Perm_fileModeOfStat)
  next
    case False
    with run n Some fi have w': "w' = put (split_path path) (n\<lparr>st_mode := (st_mode n AND S_IFMT) OR syscallMode m\<rparr>) w"
      by (simp add: mode_task_def returning_def Perm_def ModePerm_def Perm_fileModeOfStat
          os_Chmod_def chmod_path_def)
    have a: "((st_mode n AND S_IFMT) OR syscallMode m) AND 511 = m AND 511"
      by (simp add: bit.conj_disj_distrib2 syscallMode_perm_bits and.assoc S_IFMT_def)
    have b: "((st_mode n AND S_IFMT) OR syscallMode m) AND S_IFMT = st_mode n AND S_IFMT"
      by (simp add: bit.conj_disj_distrib2 syscallMode_type_bits and.assoc)
    show ?thesis using Some a b by (simp add: w' node_put IsDir_def)
  qed
qed

lemma contents_task_names:
  "users (snd (file_contents_task f w)) = users w \<and> groups (snd (file_contents_task f w)) = groups w"
proof (cases "File_Contents f")
  case None
  then show ?thesis by (simp add: file_contents_task_def)
next
  case (Some desired)
  show ?thesis
  proof (cases "os_ReadFile (File_Path f) w")
    case (Inl e)
    with Some show ?thesis by (simp add: file_contents_task_def)
  next
    case (Inr contents)
    show ?thesis
    proof (cases "contents = desired")
      case True
      with Some Inr show ?thesis by (simp add: file_contents_task_def)
    next
      case False
      obtain r1 w1 where ct: "os_CreateTemp (Dir (File_Path f)) w = (r1, w1)" by (metis prod.exhaust)
      have n1: "users w1 = users w" "groups w1 = groups w"
        using os_CreateTemp_names[of "Dir (File_Path f)" w] ct by simp_all
      show ?thesis
      proof (cases r1)
        case (Inl e)
        with Some Inr False ct n1 show ?thesis by (simp add: file_contents_task_def)
      next
        case (Inr t)
        obtain e2 w2 where ws: "file_WriteString t desired w1 = (e2, w2)" by (metis prod.exhaust)
        have n2: "users w2 = users w" "groups w2 = groups w"
          using file_WriteString_names[of t desired w1] ws n1 by simp_all
        obtain e3 w3 where cp: "copyPermissions (File_Path f) t w2 = (e3, w3)" by (metis prod.exhaust)
        have n3: "users w3 = users w" "groups w3 = groups w"
          using copyPermissions_names[of "File_Path f" t w2] cp n2 by simp_all
        obtain e4 w4 where rn: "rename_path t (split_path (File_Path f)) w3 = (e4, w4)"
          by (metis prod.exhaust)
        have n4: "users w4 = users w" "groups w4 = groups w"
          using rename_path_names[of t "split_path (File_Path f)" w3] rn n3 by simp_all
        show ?thesis
          using Some \<open>os_ReadFile (File_Path f) w = Inr contents\<close> False ct Inr ws cp rn n2 n3 n4
          by (cases e2; cases e3; cases e4) (simp_all add: file_contents_task_def cleanup_def)
      qed
    qed
  qed
qed

lemma contents_task_effect:
  assumes n: "node w (split_path (File_Path f)) = Some n" and reg: "\<not> IsDir n"
    and run: "file_contents_task f w = ((c, None), w')"
  shows "\<exists>n'. node w' (split_path (File_Path f)) = Some n' \<and> \<not> IsDir n'
            \<and> st_uid n' = st_uid n \<and> st_gid n' = st_gid n
            \<and> st_mode n' AND 511 = st_mode n AND 511
            \<and> (case File_Contents f of None \<Rightarrow> True | Some d \<Rightarrow> data n' = d)"
proof (cases "File_Contents f")
  case None
  with run n reg show ?thesis by (simp add: file_contents_task_def)
next
  case (Some desired)
  show ?thesis
  proof (cases "data n = desired")
    case True
    with run n reg Some show ?thesis
      by (simp add: file_contents_task_def os_ReadFile_def Let_def)
  next
    case False
    let ?n' = "\<lparr>st_mode = S_IFREG OR syscallMode (st_mode n), st_uid = st_uid n,
                st_gid = st_gid n, data = desired\<rparr>"
    from contents_update[OF n reg Some False run]
    have nodes: "node w' (split_path (File_Path f)) = Some ?n'" by simp
    have perm: "st_mode ?n' AND 511 = st_mode n AND 511"
      by (simp add: bit.conj_disj_distrib2 syscallMode_perm_bits) (simp add: S_IFREG_def)
    have reg': "\<not> IsDir ?n'"
      by (simp add: IsDir_def bit.conj_disj_distrib2 syscallMode_type_bits)
         (simp add: S_IFREG_def S_IFMT_def S_IFDIR_def)
    show ?thesis using nodes perm reg' Some by simp
  qed
qed

lemma lookup_err_delete:
  "lookup_err (w\<lparr>fs := AList.delete p (fs w)\<rparr>) p = lookup_err w p"
proof -
  have ne: "\<And>k. k < length p \<Longrightarrow> take k p \<noteq> p"
    by (metis length_take min.absorb4 nat_neq_iff)
  have "list_ex (\<lambda>k. case node (w\<lparr>fs := AList.delete p (fs w)\<rparr>) (take k p) of
                        Some n \<Rightarrow> \<not> IsDir n | None \<Rightarrow> False) [0..<length p]
        = list_ex (\<lambda>k. case node w (take k p) of Some n \<Rightarrow> \<not> IsDir n | None \<Rightarrow> False) [0..<length p]"
    by (rule list_ex_cong) (simp_all add: node_delete ne)
  then show ?thesis by (simp add: lookup_err_def)
qed

text \<open>
  For a file, the umask alone stands in the way of a quiet second run. When the first \<open>Run\<close>
  succeeds, the directories above the path are directories, and a path that is created
  is declared with no mode or with a mode whose permission bits the umask leaves alone,
  the second \<open>Run\<close> returns no notify target and leaves the host exactly as it found it.
\<close>

lemma file_run_twice:
  assumes first: "fileResource_Run f w = (Inr s1, w1)"
    and above: "lookup_err w (split_path (File_Path f)) = ENOENT"
    and mask: "node w (split_path (File_Path f)) = None \<longrightarrow>
                 (case File_Mode f of None \<Rightarrow> True | Some m \<Rightarrow> (m AND 511) AND umask w = 0)"
  shows "fileResource_Run f w1 = (Inr [], w1)"
proof -
  let ?p = "split_path (File_Path f)"
  obtain userID groupID where ug: "getUserAndGroup (File_Owner f) (File_Group f) w = Inr (userID, groupID)"
    using first
    by (cases "getUserAndGroup (File_Owner f) (File_Group f) w")
       (auto simp: fileResource_Run_def fileResource_plan_def run_plan_def)
  show ?thesis
  proof (cases "node w ?p")
    case None
    then have st: "os_Stat (File_Path f) w = Inl ENOENT"
      using above by (simp add: os_Stat_def stat_path_def)
    show ?thesis
    proof (cases "file_shouldExist f")
      case False
      with first ug st have "w1 = w"
        by (simp add: fileResource_Run_def fileResource_plan_def run_plan_def isNotExist_def)
      with False ug st show ?thesis
        by (simp add: fileResource_Run_def fileResource_plan_def run_plan_def isNotExist_def)
    next
      case True
      define mode where "mode = (case File_Mode f of Some m \<Rightarrow> m | None \<Rightarrow> defaultFileMode)"
      define d0 where "d0 = (case File_Contents f of Some c \<Rightarrow> c | None \<Rightarrow> [])"
      have plan: "fileResource_plan f w =
                    Tasks [file_create_task f mode, new_owner_task (File_Path f) userID,
                           new_group_task (File_Path f) groupID]"
        using ug st True by (simp add: fileResource_plan_def isNotExist_def mode_def)
      from first plan obtain ch where
        run: "runTasks_loop [file_create_task f mode, new_owner_task (File_Path f) userID,
                new_group_task (File_Path f) groupID] False w = ((ch, None), w1)"
        by (auto simp: fileResource_Run_def run_plan_def runTasks_def split: prod.splits option.splits)
      from run obtain c1 wa where t1: "file_create_task f mode w = ((c1, None), wa)"
        and r1: "runTasks_loop [new_owner_task (File_Path f) userID, new_group_task (File_Path f) groupID]
                   (c1 \<or> False) wa = ((ch, None), w1)"
        by (rule runTasks_loop_success)
      from r1 obtain c2 wb where t2: "new_owner_task (File_Path f) userID wa = ((c2, None), wb)"
        and r2: "runTasks_loop [new_group_task (File_Path f) groupID] (c2 \<or> (c1 \<or> False)) wb = ((ch, None), w1)"
        by (rule runTasks_loop_success)
      from r2 obtain c3 wc where t3: "new_group_task (File_Path f) groupID wb = ((c3, None), wc)"
        and r3: "runTasks_loop [] (c3 \<or> (c2 \<or> (c1 \<or> False))) wc = ((ch, None), w1)"
        by (rule runTasks_loop_success)
      from r3 have w1: "w1 = wc" by simp
      let ?n0 = "new_inode w S_IFREG mode d0"
      from t1 None have wa: "wa = put ?p ?n0 w"
        by (auto simp: file_create_task_def returning_def os_WriteFile_def Let_def d0_def
            split: if_splits)
      have na: "node wa ?p = Some ?n0" by (simp add: wa node_put)
      from chown_task_effect[OF na, of userID False userID "- 1" c2 wb] t2
      have wb: "wb = (if userID = - 1 then wa else put ?p (?n0\<lparr>st_uid := word_of_int userID\<rparr>) wa)"
        by (auto simp: new_owner_task_def)
      define nb where "nb = (if userID = - 1 then ?n0 else ?n0\<lparr>st_uid := word_of_int userID\<rparr>)"
      have nbn: "node wb ?p = Some nb" by (simp add: wb nb_def na node_put)
      from chown_task_effect[OF nbn, of groupID False "- 1" groupID c3 wc] t3
      have wc: "wc = (if groupID = - 1 then wb else put ?p (nb\<lparr>st_gid := word_of_int groupID\<rparr>) wb)"
        by (auto simp: new_group_task_def)
      define nc where "nc = (if groupID = - 1 then nb else nb\<lparr>st_gid := word_of_int groupID\<rparr>)"
      have ncn: "node w1 ?p = Some nc" by (simp add: w1 wc nc_def nbn node_put)
      have names: "users w1 = users w" "groups w1 = groups w"
        by (simp_all add: w1 wc wb wa)
      have ug1: "getUserAndGroup (File_Owner f) (File_Group f) w1 = Inr (userID, groupID)"
        using getUserAndGroup_names[OF names] ug by simp
      have m0: "st_mode nc = S_IFREG OR (syscallMode mode AND NOT (umask w))"
        by (simp add: nc_def nb_def new_inode_def)
      have reg: "\<not> IsDir nc"
        by (simp add: IsDir_def m0 temp_type_bits[OF syscallMode_type_bits])
           (simp add: S_IFREG_def S_IFDIR_def)
      have uid: "userID = - 1 \<or> st_uid nc = word_of_int userID" by (simp add: nc_def nb_def)
      have gid: "groupID = - 1 \<or> st_gid nc = word_of_int groupID" by (simp add: nc_def nb_def)
      have md: "case File_Mode f of None \<Rightarrow> True | Some m \<Rightarrow> st_mode nc AND 511 = m AND 511"
      proof (cases "File_Mode f")
        case None
        then show ?thesis by simp
      next
        case (Some m)
        with mask \<open>node w ?p = None\<close> have "(m AND 511) AND umask w = 0" by simp
        from and_not_disjoint[OF this] have keep: "(m AND 511) AND NOT (umask w) = m AND 511" .
        have "st_mode nc AND 511 = (syscallMode m AND 511) AND NOT (umask w)"
          using Some by (simp add: m0 mode_def bit.conj_disj_distrib2 ac_simps) (simp add: S_IFREG_def)
        with keep Some show ?thesis by (simp add: syscallMode_perm_bits)
      qed
      have ct: "case File_Contents f of None \<Rightarrow> True | Some d \<Rightarrow> data nc = d"
        by (simp add: nc_def nb_def new_inode_def d0_def split: option.splits)
      from settled_file_run[OF ug1 ncn reg True uid gid md ct] show ?thesis .
    qed
  next
    case (Some n)
    then have st: "os_Stat (File_Path f) w = Inr n" by (simp add: os_Stat_def stat_path_def)
    have reg: "\<not> IsDir n"
      using first ug st by (auto simp: fileResource_Run_def fileResource_plan_def run_plan_def)
    show ?thesis
    proof (cases "file_shouldExist f")
      case False
      with first ug st reg Some have w1: "w1 = w\<lparr>fs := AList.delete ?p (fs w)\<rparr>"
        by (simp add: fileResource_Run_def fileResource_plan_def run_plan_def runTasks_single
            file_remove_task_def returning_def os_Remove_def remove_path_def)
      have "os_Stat (File_Path f) w1 = Inl ENOENT"
        using above by (simp add: w1 os_Stat_def stat_path_def node_delete lookup_err_delete)
      moreover have "getUserAndGroup (File_Owner f) (File_Group f) w1 = Inr (userID, groupID)"
        using getUserAndGroup_names[of w1 w] ug by (simp add: w1)
      ultimately show ?thesis using False
        by (simp add: fileResource_Run_def fileResource_plan_def run_plan_def isNotExist_def)
    next
      case True
      from first file_plan_existing[OF ug st reg True] obtain ch where
        run: "runTasks_loop [owner_task (File_Path f) n userID, group_task (File_Path f) n groupID,
                mode_task (File_Path f) n (File_Mode f), file_contents_task f] False w = ((ch, None), w1)"
        by (auto simp: fileResource_Run_def run_plan_def runTasks_def split: prod.splits option.splits)
      from run obtain c1 wa where t1: "owner_task (File_Path f) n userID w = ((c1, None), wa)"
        and r1: "runTasks_loop [group_task (File_Path f) n groupID,
                mode_task (File_Path f) n (File_Mode f), file_contents_task f] (c1 \<or> False) wa = ((ch, None), w1)"
        by (rule runTasks_loop_success)
      from r1 obtain c2 wb where t2: "group_task (File_Path f) n groupID wa = ((c2, None), wb)"
        and r2: "runTasks_loop [mode_task (File_Path f) n (File_Mode f), file_contents_task f]
                   (c2 \<or> (c1 \<or> False)) wb = ((ch, None), w1)"
        by (rule runTasks_loop_success)
      from r2 obtain c3 wc where t3: "mode_task (File_Path f) n (File_Mode f) wb = ((c3, None), wc)"
        and r3: "runTasks_loop [file_contents_task f] (c3 \<or> (c2 \<or> (c1 \<or> False))) wc = ((ch, None), w1)"
        by (rule runTasks_loop_success)
      from r3 obtain c4 wd where t4: "file_contents_task f wc = ((c4, None), wd)"
        and r4: "runTasks_loop [] (c4 \<or> (c3 \<or> (c2 \<or> (c1 \<or> False)))) wd = ((ch, None), w1)"
        by (rule runTasks_loop_success)
      from r4 have w1: "w1 = wd" by simp
      define na where "na = (if userID = - 1 \<or> st_uid n = word_of_int userID then n
                             else n\<lparr>st_uid := word_of_int userID\<rparr>)"
      from chown_task_effect[OF Some, of userID "st_uid n = word_of_int userID" userID "- 1" c1 wa] t1
      have wa: "wa = (if userID = - 1 \<or> st_uid n = word_of_int userID then w else put ?p na w)"
        by (auto simp: owner_task_def na_def)
      have nan: "node wa ?p = Some na" by (auto simp: wa na_def Some node_put)
      define nb where "nb = (if groupID = - 1 \<or> st_gid n = word_of_int groupID then na
                             else na\<lparr>st_gid := word_of_int groupID\<rparr>)"
      from chown_task_effect[OF nan, of groupID "st_gid n = word_of_int groupID" "- 1" groupID c2 wb] t2
      have wb: "wb = (if groupID = - 1 \<or> st_gid n = word_of_int groupID then wa else put ?p nb wa)"
        by (auto simp: group_task_def nb_def)
      have nbn: "node wb ?p = Some nb" by (auto simp: wb nb_def nan node_put)
      have nbm: "st_mode n = st_mode nb" by (simp add: nb_def na_def)
      from mode_task_effect[OF nbn nbm t3] obtain nc where
        nc: "node wc ?p = Some nc" "st_uid nc = st_uid nb" "st_gid nc = st_gid nb"
          "IsDir nc = IsDir nb" "case File_Mode f of None \<Rightarrow> True | Some m \<Rightarrow> st_mode nc AND 511 = m AND 511"
          "users wc = users wb" "groups wc = groups wb"
        by blast
      have regc: "\<not> IsDir nc" using nc(4) reg by (simp add: nb_def na_def IsDir_def)
      from contents_task_effect[OF nc(1) regc t4] obtain nd where
        nd: "node wd ?p = Some nd" "\<not> IsDir nd" "st_uid nd = st_uid nc" "st_gid nd = st_gid nc"
          "st_mode nd AND 511 = st_mode nc AND 511"
          "case File_Contents f of None \<Rightarrow> True | Some d \<Rightarrow> data nd = d"
        by blast
      have names: "users w1 = users w" "groups w1 = groups w"
        using contents_task_names[of f wc] t4 nc(6,7)
        by (simp_all add: w1 wb wa)
      have ug1: "getUserAndGroup (File_Owner f) (File_Group f) w1 = Inr (userID, groupID)"
        using getUserAndGroup_names[OF names] ug by simp
      have uid: "userID = - 1 \<or> st_uid nd = word_of_int userID"
        by (auto simp: nd(3) nc(2) nb_def na_def)
      have gid: "groupID = - 1 \<or> st_gid nd = word_of_int groupID"
        by (auto simp: nd(4) nc(3) nb_def na_def)
      have md: "case File_Mode f of None \<Rightarrow> True | Some m \<Rightarrow> st_mode nd AND 511 = m AND 511"
        using nc(5) nd(5) by (simp split: option.splits)
      from settled_file_run[OF ug1 _ nd(2) True uid gid md nd(6)] nd(1) show ?thesis
        by (simp add: w1)
    qed
  qed
qed

section \<open>A second run with the managers of the tests\<close>

text \<open>
  With the managers of the tests, a package or a service whose first \<open>Run\<close> succeeds is
  left alone by the second: no notify target, no call of install, uninstall, start or
  stop, and the table as it was. Only the status query is made again.
\<close>

lemma package_run_twice:
  assumes "packageResource_Run mockPackages s m = (Inr s1, m1)"
  shows "fst (packageResource_Run mockPackages s m1) = Inr []
       \<and> mock_packages (snd (packageResource_Run mockPackages s m1)) = mock_packages m1
       \<and> installCalled (snd (packageResource_Run mockPackages s m1)) = installCalled m1
       \<and> uninstallCalled (snd (packageResource_Run mockPackages s m1)) = uninstallCalled m1"
  using assms
  by (auto simp: packageResource_Run_def run_plan_def runTasks_single package_task_def
      mockPackages_def mock_IsInstalled_def mock_Install_def mock_Uninstall_def returning_def
      split: option.splits if_splits)

lemma service_run_twice:
  assumes "serviceResource_Run mockServices s m = (Inr s1, m1)"
  shows "fst (serviceResource_Run mockServices s m1) = Inr []
       \<and> mock_services (snd (serviceResource_Run mockServices s m1)) = mock_services m1
       \<and> startCalled (snd (serviceResource_Run mockServices s m1)) = startCalled m1
       \<and> stopCalled (snd (serviceResource_Run mockServices s m1)) = stopCalled m1"
  using assms
  by (auto simp: serviceResource_Run_def run_plan_def runTasks_single service_task_def
      mockServices_def mock_IsRunning_def mock_Start_def mock_Stop_def returning_def
      split: option.splits if_splits)

section \<open>A second run of the directory reconciler\<close>

lemma put_process [simp]:
  "umask (put p n w) = umask w" "euid (put p n w) = euid w" "egid (put p n w) = egid w"
  by (simp_all add: put_def)

lemma new_inode_cong:
  "umask w' = umask w \<Longrightarrow> euid w' = euid w \<Longrightarrow> egid w' = egid w \<Longrightarrow>
   new_inode w' t m d = new_inode w t m d"
  by (simp add: new_inode_def)

lemma mkdir_path_effect:
  assumes "node w p = None" and "mkdir_checked p perm w = (None, w')"
  shows "w' = put p (new_inode w S_IFDIR perm []) w"
  using assms
  by (auto simp: mkdir_checked_def mkdir_path_def stat_path_def split: if_splits)

lemma mkdir_checked_frame:
  assumes "mkdir_checked q perm w = (e, w')"
  shows "users w' = users w \<and> groups w' = groups w \<and> umask w' = umask w \<and> euid w' = euid w
       \<and> egid w' = egid w \<and> (\<forall>r. r \<noteq> q \<longrightarrow> node w' r = node w r)"
  using assms
  by (auto simp: mkdir_checked_def mkdir_path_def node_put split: if_splits option.splits sum.splits)

lemma mkdirAll_frame:
  "mkdirAll_path q perm w = (e, w') \<Longrightarrow>
   users w' = users w \<and> groups w' = groups w \<and> umask w' = umask w \<and> euid w' = euid w
   \<and> egid w' = egid w \<and> (\<forall>r. length q < length r \<longrightarrow> node w' r = node w r)"
proof (induction q perm w arbitrary: e w' rule: mkdirAll_path.induct)
  case (1 p perm w)
  show ?case
  proof (cases "stat_path p w")
    case (Inr n)
    with "1.prems" show ?thesis by (auto simp: mkdirAll_path.simps[of p] split: if_splits)
  next
    case (Inl e0)
    show ?thesis
    proof (cases "length p \<le> 1")
      case True
      with "1.prems" Inl have "mkdir_checked p perm w = (e, w')"
        by (simp add: mkdirAll_path.simps[of p])
      from mkdir_checked_frame[OF this] show ?thesis by auto
    next
      case False
      obtain e1 w1 where rec: "mkdirAll_path (butlast p) perm w = (e1, w1)" by (metis prod.exhaust)
      from "1.IH"[OF Inl False rec] have f1: "users w1 = users w" "groups w1 = groups w"
        "umask w1 = umask w" "euid w1 = euid w" "egid w1 = egid w"
        "\<forall>r. length (butlast p) < length r \<longrightarrow> node w1 r = node w r" by simp_all
      show ?thesis
      proof (cases e1)
        case (Some x)
        with "1.prems" Inl False rec have "w' = w1" by (simp add: mkdirAll_path.simps[of p])
        with f1 show ?thesis by auto
      next
        case None
        with "1.prems" Inl False rec have "mkdir_checked p perm w1 = (e, w')"
          by (simp add: mkdirAll_path.simps[of p])
        from mkdir_checked_frame[OF this] f1 show ?thesis by auto
      qed
    qed
  qed
qed

lemma mkdirAll_created:
  assumes none: "node w p = None" and ok: "mkdirAll_path p perm w = (None, w1)"
  shows "\<exists>w0. w1 = put p (new_inode w S_IFDIR perm []) w0 \<and> users w0 = users w \<and> groups w0 = groups w"
proof -
  have st: "stat_path p w = Inl (lookup_err w p)" using none by (simp add: stat_path_def)
  show ?thesis
  proof (cases "length p \<le> 1")
    case True
    with ok st have "mkdir_checked p perm w = (None, w1)" by (simp add: mkdirAll_path.simps[of p])
    from mkdir_path_effect[OF none this] show ?thesis by blast
  next
    case False
    obtain e1 w0 where rec: "mkdirAll_path (butlast p) perm w = (e1, w0)" by (metis prod.exhaust)
    with ok st False have e1: "e1 = None" and mk: "mkdir_checked p perm w0 = (None, w1)"
      by (cases e1; simp add: mkdirAll_path.simps[of p])+
    from mkdirAll_frame[OF rec] False have f: "users w0 = users w" "groups w0 = groups w"
      "umask w0 = umask w" "euid w0 = euid w" "egid w0 = egid w" "node w0 p = node w p"
      by auto
    from mkdir_path_effect[OF _ mk] f none
    have "w1 = put p (new_inode w0 S_IFDIR perm []) w0" by simp
    with f new_inode_cong[OF f(3,4,5)] show ?thesis by auto
  qed
qed

lemma settled_directory_run:
  assumes ug: "getUserAndGroup (Dir_Owner d) (Dir_Group d) w = Inr (userID, groupID)"
    and n: "node w (split_path (Dir_Path d)) = Some n" and isdir: "IsDir n"
    and uid: "userID = - 1 \<or> st_uid n = word_of_int userID"
    and gid: "groupID = - 1 \<or> st_gid n = word_of_int groupID"
    and mode: "case Dir_Mode d of None \<Rightarrow> True | Some m \<Rightarrow> st_mode n AND 511 = m AND 511"
  shows "directoryResource_Run d w = (Inr [], w)"
proof -
  have st: "os_Stat (Dir_Path d) w = Inr n" using n by (simp add: os_Stat_def stat_path_def)
  have o: "owner_task (Dir_Path d) n userID = skip" using uid by (auto simp: owner_task_def)
  have g: "group_task (Dir_Path d) n groupID = skip" using gid by (auto simp: group_task_def)
  have m: "mode_task (Dir_Path d) n (Dir_Mode d) = skip"
    using mode by (auto simp: mode_task_def Perm_def ModePerm_def Perm_fileModeOfStat split: option.splits)
  show ?thesis
    using directory_plan_existing[OF ug st isdir] o g m
    by (simp add: directoryResource_Run_def run_plan_def runTasks_def skip_def)
qed

lemma dir_type_bits: "(S_IFDIR OR (x AND NOT u)) AND S_IFMT = S_IFDIR" if "x AND S_IFMT = 0" for x u :: "32 word"
proof -
  have "(x AND NOT u) AND S_IFMT = (x AND S_IFMT) AND NOT u"
    by (simp add: ac_simps)
  then show ?thesis using that
    by (simp add: bit.conj_disj_distrib2 S_IFDIR_def S_IFMT_def)
qed

text \<open>
  The same for a directory: when the first \<open>Run\<close> succeeds, and a directory that is
  created is declared with no mode or with a mode whose permission bits the umask leaves
  alone, the second \<open>Run\<close> returns no notify target and leaves the host exactly as it
  found it.
\<close>

lemma directory_run_twice:
  assumes first: "directoryResource_Run d w = (Inr s1, w1)"
    and mask: "node w (split_path (Dir_Path d)) = None \<longrightarrow>
                 (case Dir_Mode d of None \<Rightarrow> True | Some m \<Rightarrow> (m AND 511) AND umask w = 0)"
  shows "directoryResource_Run d w1 = (Inr [], w1)"
proof -
  let ?p = "split_path (Dir_Path d)"
  obtain userID groupID where ug: "getUserAndGroup (Dir_Owner d) (Dir_Group d) w = Inr (userID, groupID)"
    using first
    by (cases "getUserAndGroup (Dir_Owner d) (Dir_Group d) w")
       (auto simp: directoryResource_Run_def directoryResource_plan_def run_plan_def)
  show ?thesis
  proof (cases "node w ?p")
    case None
    then have st: "os_Stat (Dir_Path d) w = Inl (lookup_err w ?p)"
      by (simp add: os_Stat_def stat_path_def)
    define mode where "mode = (case Dir_Mode d of Some m \<Rightarrow> m | None \<Rightarrow> defaultDirMode)"
    have ne: "isNotExist (lookup_err w ?p)"
      using first ug st
      by (auto simp: directoryResource_Run_def directoryResource_plan_def run_plan_def split: if_splits)
    have plan: "directoryResource_plan d w =
                  Tasks [dir_create_task d mode, new_owner_task (Dir_Path d) userID,
                         new_group_task (Dir_Path d) groupID]"
      using ug st ne by (simp add: directoryResource_plan_def mode_def)
    from first plan obtain ch where
      run: "runTasks_loop [dir_create_task d mode, new_owner_task (Dir_Path d) userID,
              new_group_task (Dir_Path d) groupID] False w = ((ch, None), w1)"
      by (auto simp: directoryResource_Run_def run_plan_def runTasks_def split: prod.splits option.splits)
    from run obtain c1 wa where t1: "dir_create_task d mode w = ((c1, None), wa)"
      and r1: "runTasks_loop [new_owner_task (Dir_Path d) userID, new_group_task (Dir_Path d) groupID]
                 (c1 \<or> False) wa = ((ch, None), w1)"
      by (rule runTasks_loop_success)
    from r1 obtain c2 wb where t2: "new_owner_task (Dir_Path d) userID wa = ((c2, None), wb)"
      and r2: "runTasks_loop [new_group_task (Dir_Path d) groupID] (c2 \<or> (c1 \<or> False)) wb = ((ch, None), w1)"
      by (rule runTasks_loop_success)
    from r2 obtain c3 wc where t3: "new_group_task (Dir_Path d) groupID wb = ((c3, None), wc)"
      and r3: "runTasks_loop [] (c3 \<or> (c2 \<or> (c1 \<or> False))) wc = ((ch, None), w1)"
      by (rule runTasks_loop_success)
    from r3 have w1: "w1 = wc" by simp
    let ?n0 = "new_inode w S_IFDIR mode []"
    have "\<exists>w0. wa = put ?p ?n0 w0 \<and> users w0 = users w \<and> groups w0 = groups w"
    proof (cases "Dir_Recursive d")
      case True
      with t1 have "mkdirAll_path ?p mode w = (None, wa)"
        by (auto simp: dir_create_task_def returning_def os_MkdirAll_def split: prod.splits)
      from mkdirAll_created[OF None this] show ?thesis .
    next
      case False
      with t1 have "mkdir_path ?p mode w = (None, wa)"
        by (auto simp: dir_create_task_def returning_def os_Mkdir_def split: prod.splits)
      then have "mkdir_checked ?p mode w = (None, wa)" by (simp add: mkdir_checked_def)
      from mkdir_path_effect[OF None this] show ?thesis by blast
    qed
    then obtain w0 where wa: "wa = put ?p ?n0 w0" and n0: "users w0 = users w" "groups w0 = groups w"
      by blast
    have na: "node wa ?p = Some ?n0" by (simp add: wa node_put)
    from chown_task_effect[OF na, of userID False userID "- 1" c2 wb] t2
    have wb: "wb = (if userID = - 1 then wa else put ?p (?n0\<lparr>st_uid := word_of_int userID\<rparr>) wa)"
      by (auto simp: new_owner_task_def)
    define nb where "nb = (if userID = - 1 then ?n0 else ?n0\<lparr>st_uid := word_of_int userID\<rparr>)"
    have nbn: "node wb ?p = Some nb" by (simp add: wb nb_def na node_put)
    from chown_task_effect[OF nbn, of groupID False "- 1" groupID c3 wc] t3
    have wc: "wc = (if groupID = - 1 then wb else put ?p (nb\<lparr>st_gid := word_of_int groupID\<rparr>) wb)"
      by (auto simp: new_group_task_def)
    define nc where "nc = (if groupID = - 1 then nb else nb\<lparr>st_gid := word_of_int groupID\<rparr>)"
    have ncn: "node w1 ?p = Some nc" by (simp add: w1 wc nc_def nbn node_put)
    have names: "users w1 = users w" "groups w1 = groups w"
      by (simp_all add: w1 wc wb wa n0)
    have ug1: "getUserAndGroup (Dir_Owner d) (Dir_Group d) w1 = Inr (userID, groupID)"
      using getUserAndGroup_names[OF names] ug by simp
    have m0: "st_mode nc = S_IFDIR OR (syscallMode mode AND NOT (umask w))"
      by (simp add: nc_def nb_def new_inode_def)
    have isdir: "IsDir nc"
      by (simp add: IsDir_def m0 dir_type_bits[OF syscallMode_type_bits])
    have uid: "userID = - 1 \<or> st_uid nc = word_of_int userID" by (simp add: nc_def nb_def)
    have gid: "groupID = - 1 \<or> st_gid nc = word_of_int groupID" by (simp add: nc_def nb_def)
    have md: "case Dir_Mode d of None \<Rightarrow> True | Some m \<Rightarrow> st_mode nc AND 511 = m AND 511"
    proof (cases "Dir_Mode d")
      case None
      then show ?thesis by simp
    next
      case (Some m)
      with mask \<open>node w ?p = None\<close> have "(m AND 511) AND umask w = 0" by simp
      from and_not_disjoint[OF this] have keep: "(m AND 511) AND NOT (umask w) = m AND 511" .
      have "st_mode nc AND 511 = (syscallMode m AND 511) AND NOT (umask w)"
        using Some by (simp add: m0 mode_def bit.conj_disj_distrib2 ac_simps) (simp add: S_IFDIR_def)
      with keep Some show ?thesis by (simp add: syscallMode_perm_bits)
    qed
    from settled_directory_run[OF ug1 ncn isdir uid gid md] show ?thesis .
  next
    case (Some n)
    then have st: "os_Stat (Dir_Path d) w = Inr n" by (simp add: os_Stat_def stat_path_def)
    have isdir: "IsDir n"
      using first ug st by (auto simp: directoryResource_Run_def directoryResource_plan_def run_plan_def split: if_splits)
    from first directory_plan_existing[OF ug st isdir] obtain ch where
      run: "runTasks_loop [owner_task (Dir_Path d) n userID, group_task (Dir_Path d) n groupID,
              mode_task (Dir_Path d) n (Dir_Mode d)] False w = ((ch, None), w1)"
      by (auto simp: directoryResource_Run_def run_plan_def runTasks_def split: prod.splits option.splits)
    from run obtain c1 wa where t1: "owner_task (Dir_Path d) n userID w = ((c1, None), wa)"
      and r1: "runTasks_loop [group_task (Dir_Path d) n groupID, mode_task (Dir_Path d) n (Dir_Mode d)]
                 (c1 \<or> False) wa = ((ch, None), w1)"
      by (rule runTasks_loop_success)
    from r1 obtain c2 wb where t2: "group_task (Dir_Path d) n groupID wa = ((c2, None), wb)"
      and r2: "runTasks_loop [mode_task (Dir_Path d) n (Dir_Mode d)] (c2 \<or> (c1 \<or> False)) wb = ((ch, None), w1)"
      by (rule runTasks_loop_success)
    from r2 obtain c3 wc where t3: "mode_task (Dir_Path d) n (Dir_Mode d) wb = ((c3, None), wc)"
      and r3: "runTasks_loop [] (c3 \<or> (c2 \<or> (c1 \<or> False))) wc = ((ch, None), w1)"
      by (rule runTasks_loop_success)
    from r3 have w1: "w1 = wc" by simp
    define na where "na = (if userID = - 1 \<or> st_uid n = word_of_int userID then n
                           else n\<lparr>st_uid := word_of_int userID\<rparr>)"
    from chown_task_effect[OF Some, of userID "st_uid n = word_of_int userID" userID "- 1" c1 wa] t1
    have wa: "wa = (if userID = - 1 \<or> st_uid n = word_of_int userID then w else put ?p na w)"
      by (auto simp: owner_task_def na_def)
    have nan: "node wa ?p = Some na" by (auto simp: wa na_def Some node_put)
    define nb where "nb = (if groupID = - 1 \<or> st_gid n = word_of_int groupID then na
                           else na\<lparr>st_gid := word_of_int groupID\<rparr>)"
    from chown_task_effect[OF nan, of groupID "st_gid n = word_of_int groupID" "- 1" groupID c2 wb] t2
    have wb: "wb = (if groupID = - 1 \<or> st_gid n = word_of_int groupID then wa else put ?p nb wa)"
      by (auto simp: group_task_def nb_def)
    have nbn: "node wb ?p = Some nb" by (auto simp: wb nb_def nan node_put)
    have nbm: "st_mode n = st_mode nb" by (simp add: nb_def na_def)
    from mode_task_effect[OF nbn nbm t3] obtain nc where
      nc: "node wc ?p = Some nc" "st_uid nc = st_uid nb" "st_gid nc = st_gid nb"
        "IsDir nc = IsDir nb" "case Dir_Mode d of None \<Rightarrow> True | Some m \<Rightarrow> st_mode nc AND 511 = m AND 511"
        "users wc = users wb" "groups wc = groups wb"
      by blast
    have isdirc: "IsDir nc" using nc(4) isdir by (simp add: nb_def na_def IsDir_def)
    have names: "users w1 = users w" "groups w1 = groups w"
      using nc(6,7) by (simp_all add: w1 wb wa)
    have ug1: "getUserAndGroup (Dir_Owner d) (Dir_Group d) w1 = Inr (userID, groupID)"
      using getUserAndGroup_names[OF names] ug by simp
    have uid: "userID = - 1 \<or> st_uid nc = word_of_int userID"
      by (auto simp: nc(2) nb_def na_def)
    have gid: "groupID = - 1 \<or> st_gid nc = word_of_int groupID"
      by (auto simp: nc(3) nb_def na_def)
    from settled_directory_run[OF ug1 _ isdirc uid gid nc(5)] nc(1) show ?thesis
      by (simp add: w1)
  qed
qed


end
